theory Spec2Isabelle
  imports Complex_Main
begin

section \<open>Strings as Python sees them\<close>

text \<open>
  A Python \<open>str\<close> is modelled as a \<open>string\<close> whose characters are the code points
  below 256. On that range \<open>str.strip()\<close> removes the characters for which
  \<open>str.isspace()\<close> holds, and the regular-expression class \<open>\d\<close> is exactly the ten
  ASCII digits.
\<close>

definition isspace :: "char \<Rightarrow> bool" where
  "isspace c = (c \<in> set [CHR 0x09, CHR 0x0A, CHR 0x0B, CHR 0x0C, CHR 0x0D,
                          CHR 0x1C, CHR 0x1D, CHR 0x1E, CHR 0x1F, CHR 0x20,
                          CHR 0x85, CHR 0xA0])"

definition strip :: "string \<Rightarrow> string" where
  "strip s = rev (dropWhile isspace (rev (dropWhile isspace s)))"

definition isdigit :: "char \<Rightarrow> bool" where
  "isdigit c = (c \<in> set ''0123456789'')"

definition startswith :: "string \<Rightarrow> string \<Rightarrow> bool" where
  "startswith p s = (take (length p) s = p)"

text \<open>\<open>sub in s\<close> for strings: \<open>sub\<close> occurs in \<open>s\<close> as a contiguous block.\<close>

fun contains :: "string \<Rightarrow> string \<Rightarrow> bool" where
  "contains sub [] = (sub = [])"
| "contains sub (c # cs) = (startswith sub (c # cs) \<or> contains sub cs)"

text \<open>The value of a run of ASCII digits read in base ten.\<close>

definition digit_val :: "char \<Rightarrow> nat" where
  "digit_val c = of_char c - 48"

definition digits_val :: "string \<Rightarrow> nat" where
  "digits_val ds = foldl (\<lambda>a c. 10 * a + digit_val c) 0 ds"

section \<open>The two regular expressions of \<open>run_scan\<close>\<close>

text \<open>
  \<open>re.search(r"(\d+\.\d+)% done", clean_line)\<close>. A match that starts at a given
  position takes the whole run of digits there (the next character has to be the dot),
  the dot, the whole run of digits after it (the next character has to be \<open>%\<close>) and
  the literal \<open>% done\<close>; \<open>percent_here\<close> returns group 1 of that match.
  \<open>re.search\<close> returns the match with the leftmost start.
\<close>

definition percent_here :: "string \<Rightarrow> string option" where
  "percent_here s =
     (let d1 = takeWhile isdigit s; r1 = dropWhile isdigit s in
      if d1 = [] then None
      else (case r1 of
              [] \<Rightarrow> None
            | c # r2 \<Rightarrow>
                if c \<noteq> CHR ''.'' then None
                else (let d2 = takeWhile isdigit r2; r3 = dropWhile isdigit r2 in
                      if d2 = [] then None
                      else if startswith ''% done'' r3 then Some (d1 @ ''.'' @ d2)
                      else None)))"

fun search_percent :: "string \<Rightarrow> string option" where
  "search_percent [] = None"
| "search_percent (c # cs) =
     (case percent_here (c # cs) of
        Some g \<Rightarrow> Some g
      | None \<Rightarrow> search_percent cs)"

text \<open>\<open>int.bit_length()\<close> of a number that is not negative.\<close>

function bit_length :: "int \<Rightarrow> nat" where
  "bit_length n = (if n \<le> 0 then 0 else Suc (bit_length (n div 2)))"
  by pat_completeness auto
termination
  by (relation "measure nat") auto

declare bit_length.simps [simp del]

section \<open>Numbers\<close>

text \<open>
  The progress value is a Python number: the integers 0 and 100 that the program
  writes itself, or a float. A float is a double: a rational it represents exactly, or
  infinity (a digit string is never negative and never a NaN).
\<close>

datatype number = Finite rat | Infinity


text \<open>
  \<open>float(...)\<close> of a decimal numeral returns the double nearest to the number written,
  a tie going to the double with the even significand. For the number \<open>p / q\<close> with
  \<open>p, q > 0\<close>: \<open>floor_log2\<close> is the exponent \<open>e\<close> with \<open>2 ^ e \<le> p / q < 2 ^ (e + 1)\<close>, found
  from the bit lengths; a double near it is a multiple of \<open>2 ^ k\<close> with \<open>k = e - 52\<close>
  (53 significant bits), and never finer than \<open>2 ^ - 1074\<close>; the multiple is \<open>p / q\<close>
  divided by \<open>2 ^ k\<close> and rounded half to even; a result of \<open>2 ^ 1024\<close> or more is infinity.
\<close>

definition at_least_pow2 :: "nat \<Rightarrow> nat \<Rightarrow> int \<Rightarrow> bool" where
  "at_least_pow2 p q e =
     (if 0 \<le> e then q * 2 ^ nat e \<le> p else q \<le> p * 2 ^ nat (- e))"

definition floor_log2 :: "nat \<Rightarrow> nat \<Rightarrow> int" where
  "floor_log2 p q =
     (let e0 = int (bit_length (int p)) - int (bit_length (int q)) in
      if at_least_pow2 p q e0 then e0 else e0 - 1)"

definition times_pow2 :: "rat \<Rightarrow> int \<Rightarrow> rat" where
  "times_pow2 x k = (if 0 \<le> k then x * 2 ^ nat k else x / 2 ^ nat (- k))"

definition round_half_even :: "rat \<Rightarrow> int" where
  "round_half_even x =
     (let f = \<lfloor>x\<rfloor>; d = x - of_int f in
      if d < 1 / 2 then f
      else if 1 / 2 < d then f + 1
      else if even f then f else f + 1)"

definition round_to_double :: "nat \<Rightarrow> nat \<Rightarrow> number" where
  "round_to_double p q =
     (if p = 0 then Finite 0
      else (let e = floor_log2 p q;
                k = max (e - 52) (- 1074);
                m = round_half_even (times_pow2 (of_nat p / of_nat q) (- k));
                v = times_pow2 (of_int m) k
            in if 2 ^ 1024 \<le> v then Infinity else Finite v))"

text \<open>\<open>float(match.group(1))\<close> on a group \<open>digits.digits\<close>: the number written is the
  digits read as one numeral, over ten to the number of digits after the point.\<close>

definition float_of_group :: "string \<Rightarrow> number" where
  "float_of_group g =
     (let d1 = takeWhile isdigit g; d2 = drop (Suc (length d1)) g in
      round_to_double (digits_val (d1 @ d2)) (10 ^ length d2))"

text \<open>\<open>re.match(r"^\d+/(tcp|udp)", clean_line)\<close>.\<close>

definition match_port :: "string \<Rightarrow> bool" where
  "match_port s =
     (let d = takeWhile isdigit s; r = dropWhile isdigit s in
      d \<noteq> [] \<and> (startswith ''/tcp'' r \<or> startswith ''/udp'' r))"

section \<open>The read loop of \<open>run_scan\<close>\<close>

text \<open>
  What the program sends to the console, one constructor for each \<open>console.print\<close>
  call, one for \<open>console.clear\<close> and one for each prompt; the arguments are the texts
  interpolated into the markup. \<open>ScanFailed\<close> is the line "Scan failed. Run as
  sudo/admin for advanced scans."
\<close>

datatype event =
    Targeting string
  | Command string
  | LiveResultsHeader
  | PortFound string
  | Detail string
  | ScriptResult string
  | Dim string
  | ScanFailed
  | ScanComplete
  | ReportSaved string
  | NmapMissing
  | ExplainHeader
  | ExplainEntry string string
  | ExplainCommand string
  | ExplainWhat string
  | ScreenCleared
  | Banner
  | MenuEntry string string
  | MenuExplain
  | MenuExit
  | AskChoice
  | AskTarget "string option"
  | Exiting
  | InvalidIP
  | InvalidSelection

text \<open>
  The exceptions that the program lets escape. The console reads its argument as
  markup, and text that is interpolated into a markup string can make the string
  ill-formed (a line \<open>[/x]\<close> closes a tag that is not open): the call then raises
  \<open>MarkupError\<close> and prints nothing. Opening a file can raise \<open>OSError\<close>. No function of
  the program catches either.
\<close>

datatype error = MarkupError | OSError

text \<open>
  A call that can raise returns \<open>Inr\<close> with its result, or \<open>Inl\<close> with the exception
  and what had been done when it was raised.
\<close>

definition effects :: "error \<times> 's + 's \<Rightarrow> 's" where
  "effects r = (case r of Inl (e, s) \<Rightarrow> s | Inr s \<Rightarrow> s)"

definition raised :: "error \<times> 's + 'a \<Rightarrow> error option" where
  "raised r = (case r of Inl (e, s) \<Rightarrow> Some e | Inr a \<Rightarrow> None)"

text \<open>
  The state the loop works on: \<open>completed\<close> is the value of the progress task,
  \<open>log_writes\<close> the arguments of \<open>log_file.write\<close> in order, \<open>printed\<close> the console
  output in order.
\<close>

record scan_state =
  completed :: number
  log_writes :: "string list"
  printed :: "event list"

text \<open>\<open>console.print\<close> of a fixed markup string of the program: it is well-formed.\<close>

definition emit :: "event \<Rightarrow> scan_state \<Rightarrow> scan_state" where
  "emit e st = st\<lparr>printed := printed st @ [e]\<rparr>"

text \<open>\<open>console.print\<close> of a markup string with text interpolated; \<open>fails\<close> says
  for which calls the console finds the string ill-formed.\<close>

definition console_print ::
  "(event \<Rightarrow> bool) \<Rightarrow> event \<Rightarrow> scan_state \<Rightarrow> error \<times> scan_state + scan_state" where
  "console_print fails e st =
     (if fails e then Inl (MarkupError, st) else Inr (emit e st))"

text \<open>One iteration of \<open>for line in process.stdout\<close>.\<close>

definition process_line ::
  "(event \<Rightarrow> bool) \<Rightarrow> scan_state \<Rightarrow> string \<Rightarrow> error \<times> scan_state + scan_state" where
  "process_line fails st line =
     (let clean_line = strip line in
      if clean_line = [] then Inr st
      else
        (let st1 = st\<lparr>log_writes := log_writes st @ [clean_line @ [CHR 0x0A]]\<rparr> in
         case search_percent clean_line of
           Some g \<Rightarrow> Inr (st1\<lparr>completed := float_of_group g\<rparr>)
         | None \<Rightarrow>
             if match_port clean_line then console_print fails (PortFound clean_line) st1
             else if contains ''OS details:'' clean_line \<or> contains ''Service Info:'' clean_line
               then console_print fails (Detail clean_line) st1
             else if startswith ''|'' clean_line
               then console_print fails (ScriptResult clean_line) st1
             else if \<not> contains ''Stats:'' clean_line
               then console_print fails (Dim clean_line) st1
             else Inr st1))"

text \<open>The loop: an exception in an iteration ends it.\<close>

fun read_loop ::
  "(event \<Rightarrow> bool) \<Rightarrow> scan_state \<Rightarrow> string list \<Rightarrow> error \<times> scan_state + scan_state" where
  "read_loop fails st [] = Inr st"
| "read_loop fails st (line # rest) =
     (case process_line fails st line of
        Inl x \<Rightarrow> Inl x
      | Inr st' \<Rightarrow> read_loop fails st' rest)"

text \<open>
  Whether the iteration for a line raises depends on the line alone, and the lines that
  the loop consumes are those up to and including the first at which it raises.
\<close>

definition line_aborts :: "(event \<Rightarrow> bool) \<Rightarrow> string \<Rightarrow> bool" where
  "line_aborts fails line =
     (raised (process_line fails
                \<lparr>completed = Finite 0, log_writes = [], printed = []\<rparr> line) \<noteq> None)"

fun consumed :: "(event \<Rightarrow> bool) \<Rightarrow> string list \<Rightarrow> string list" where
  "consumed fails [] = []"
| "consumed fails (line # rest) =
     (if line_aborts fails line then [line]
      else line # consumed fails rest)"

section \<open>\<open>run_scan\<close>\<close>

text \<open>
  The child process as \<open>run_scan\<close> observes it: the lines that iterating over
  \<open>process.stdout\<close> yields (standard error merged in) and the exit status.
\<close>

record process =
  stdout_lines :: "string list"
  returncode :: int

text \<open>
  What \<open>run_scan\<close> meets outside the program: for which calls the console finds its
  markup ill-formed, for which names \<open>open(name, "w")\<close> raises (a name longer than the
  file system allows, a directory that cannot be written), the child that
  \<open>subprocess.Popen\<close> starts for an argument list (none when it raises \<open>OSError\<close>), and
  the text of \<open>int(time.time())\<close>. Writing to the open log file and reading the child's
  output are taken to succeed.
\<close>

record environment =
  markup_fails :: "event \<Rightarrow> bool"
  open_fails :: "string \<Rightarrow> bool"
  popen :: "string list \<Rightarrow> process option"
  stamp :: string

text \<open>
  What one call of \<open>run_scan\<close> did: the argument list a child was started with, if
  one was; the name of the log file, if it was opened; and the progress value, the log
  and the console output.
\<close>

record scan_run =
  argv :: "string list option"
  log_filename :: "string option"
  final :: scan_state

definition replace_slash :: "string \<Rightarrow> string" where
  "replace_slash t = map (\<lambda>c. if c = CHR ''/'' then CHR ''_'' else c) t"

fun join_space :: "string list \<Rightarrow> string" where
  "join_space [] = []"
| "join_space [x] = x"
| "join_space (x # y # ys) = x @ '' '' @ join_space (y # ys)"

text \<open>The first two statements of \<open>run_scan\<close>: the name of the log file and the
  argument list.\<close>

definition log_name :: "environment \<Rightarrow> string \<Rightarrow> string" where
  "log_name env target = ''scan_'' @ replace_slash target @ ''_'' @ stamp env @ ''.txt''"

definition full_command :: "string list \<Rightarrow> string \<Rightarrow> string list" where
  "full_command scan_command target = scan_command @ [''--stats-every'', ''3s'', target]"

text \<open>
  The state when the loop starts: the two header lines and the results banner have
  been printed, \<open>progress.add_task("Scanning...", total=100)\<close> has created the task with
  nothing completed, and the log file is freshly opened.
\<close>

definition loop_start :: "string list \<Rightarrow> string \<Rightarrow> scan_state" where
  "loop_start scan_command target =
     \<lparr>completed = Finite 0, log_writes = [],
      printed = [Targeting target,
                 Command (join_space (full_command scan_command target)),
                 LiveResultsHeader]\<rparr>"

text \<open>The part of \<open>run_scan\<close> after the loop: \<open>process.wait()\<close>, the progress value
  set to 100, and the outcome lines.\<close>

definition finish ::
  "(event \<Rightarrow> bool) \<Rightarrow> string \<Rightarrow> int \<Rightarrow> scan_state \<Rightarrow> error \<times> scan_state + scan_state" where
  "finish fails log_file rc st =
     (let st1 = st\<lparr>completed := Finite 100\<rparr> in
      if rc \<noteq> 0 then Inr (emit ScanFailed st1)
      else console_print fails (ReportSaved log_file) (emit ScanComplete st1))"

text \<open>
  \<open>run_scan(scan_command, target)\<close>, in the order of its statements: the two header
  lines, \<open>add_task\<close>, \<open>Popen\<close>, the results banner, \<open>open(log_filename, "w")\<close>, the loop,
  the part after the loop.
\<close>

definition run_scan ::
  "environment \<Rightarrow> string list \<Rightarrow> string \<Rightarrow> error \<times> scan_run + scan_run" where
  "run_scan env scan_command target =
     (let st0 = \<lparr>completed = Finite 0, log_writes = [], printed = []\<rparr> in
      case console_print (markup_fails env) (Targeting target) st0 of
        Inl (e, st) \<Rightarrow> Inl (e, \<lparr>argv = None, log_filename = None, final = st\<rparr>)
      | Inr st1 \<Rightarrow>
          (case console_print (markup_fails env)
                  (Command (join_space (full_command scan_command target))) st1 of
             Inl (e, st) \<Rightarrow> Inl (e, \<lparr>argv = None, log_filename = None, final = st\<rparr>)
           | Inr st2 \<Rightarrow>
               (case popen env (full_command scan_command target) of
                  None \<Rightarrow> Inl (OSError, \<lparr>argv = None, log_filename = None, final = st2\<rparr>)
                | Some proc \<Rightarrow>
                    (let st3 = emit LiveResultsHeader st2 in
                     if open_fails env (log_name env target) then
                       Inl (OSError,
                            \<lparr>argv = Some (full_command scan_command target),
                             log_filename = None, final = st3\<rparr>)
                     else
                       (case read_loop (markup_fails env) st3 (stdout_lines proc) of
                          Inl (e, st) \<Rightarrow>
                            Inl (e, \<lparr>argv = Some (full_command scan_command target),
                                     log_filename = Some (log_name env target), final = st\<rparr>)
                        | Inr st4 \<Rightarrow>
                            (case finish (markup_fails env) (log_name env target)
                                    (returncode proc) st4 of
                               Inl (e, st) \<Rightarrow>
                                 Inl (e, \<lparr>argv = Some (full_command scan_command target),
                                          log_filename = Some (log_name env target),
                                          final = st\<rparr>)
                             | Inr st5 \<Rightarrow>
                                 Inr \<lparr>argv = Some (full_command scan_command target),
                                      log_filename = Some (log_name env target),
                                      final = st5\<rparr>))))))"

text \<open>
  When a call of \<open>run_scan\<close> gets as far as its loop with the child \<open>proc\<close>: neither
  header line raises, \<open>Popen\<close> starts \<open>proc\<close>, and the log file opens. When it reads the
  stream to its end: moreover no iteration raises.
\<close>

definition reaches_loop :: "environment \<Rightarrow> string list \<Rightarrow> string \<Rightarrow> process \<Rightarrow> bool" where
  "reaches_loop env scan_command target proc =
     (\<not> markup_fails env (Targeting target) \<and>
      \<not> markup_fails env (Command (join_space (full_command scan_command target))) \<and>
      popen env (full_command scan_command target) = Some proc \<and>
      \<not> open_fails env (log_name env target))"

definition reads_to_end :: "environment \<Rightarrow> string list \<Rightarrow> string \<Rightarrow> process \<Rightarrow> bool" where
  "reads_to_end env scan_command target proc =
     (reaches_loop env scan_command target proc \<and>
      list_all (\<lambda>l. \<not> line_aborts (markup_fails env) l) (stdout_lines proc))"

text \<open>A trimmed line is rendered when one of the four line-carrying console events
  holds it.\<close>

definition rendered :: "string \<Rightarrow> scan_state \<Rightarrow> bool" where
  "rendered l st =
     (PortFound l \<in> set (printed st) \<or> Detail l \<in> set (printed st) \<or>
      ScriptResult l \<in> set (printed st) \<or> Dim l \<in> set (printed st))"

section \<open>The standard \<open>ipaddress\<close> module, as far as \<open>validate_ip\<close> calls it\<close>

text \<open>
  \<open>validate_ip\<close> hands its argument to \<open>ipaddress.ip_address\<close> or to
  \<open>ipaddress.ip_network(..., strict=False)\<close> and reports whether a \<open>ValueError\<close> came
  back. The functions below follow the string paths of CPython 3.11's \<open>ipaddress.py\<close>,
  function by function. All three exceptions are \<open>ValueError\<close>s; the two subclasses
  are kept apart because \<open>ip_address\<close> and \<open>ip_network\<close> catch only those.
\<close>

datatype value_error = AddressValueError | NetmaskValueError | ValueError

text \<open>\<open>s.split(sep)\<close> for a separator of one character.\<close>

fun split_on :: "char \<Rightarrow> string \<Rightarrow> string list" where
  "split_on sep [] = [[]]"
| "split_on sep (c # cs) =
     (if c = sep then [] # split_on sep cs
      else (case split_on sep cs of
              [] \<Rightarrow> [[c]]
            | p # ps \<Rightarrow> (c # p) # ps))"

text \<open>Applies a parser to every part; the first failure is the result.\<close>

fun parse_each :: "(string \<Rightarrow> value_error + int) \<Rightarrow> string list \<Rightarrow> value_error + int list" where
  "parse_each f [] = Inr []"
| "parse_each f (x # xs) =
     (case f x of
        Inl e \<Rightarrow> Inl e
      | Inr v \<Rightarrow> (case parse_each f xs of Inl e \<Rightarrow> Inl e | Inr vs \<Rightarrow> Inr (v # vs)))"

subsection \<open>IPv4\<close>

text \<open>\<open>_BaseV4._parse_octet\<close>.\<close>

definition parse_octet :: "string \<Rightarrow> value_error + int" where
  "parse_octet octet_str =
     (if octet_str = [] then Inl ValueError
      else if \<not> list_all isdigit octet_str then Inl ValueError
      else if length octet_str > 3 then Inl ValueError
      else if octet_str \<noteq> ''0'' \<and> hd octet_str = CHR ''0'' then Inl ValueError
      else (let octet_int = int (digits_val octet_str) in
            if octet_int > 255 then Inl ValueError else Inr octet_int))"

text \<open>\<open>_BaseV4._ip_int_from_string\<close>; \<open>int.from_bytes(..., 'big')\<close> is the fold.\<close>

definition v4_int_from_string :: "string \<Rightarrow> value_error + int" where
  "v4_int_from_string ip_str =
     (if ip_str = [] then Inl AddressValueError
      else (let octets = split_on CHR ''.'' ip_str in
            if length octets \<noteq> 4 then Inl AddressValueError
            else (case parse_each parse_octet octets of
                    Inl e \<Rightarrow> Inl AddressValueError
                  | Inr bs \<Rightarrow> Inr (foldl (\<lambda>a b. 256 * a + b) 0 bs))))"

text \<open>\<open>IPv4Address(address)\<close> for a string.\<close>

definition IPv4Address :: "string \<Rightarrow> value_error + int" where
  "IPv4Address addr_str =
     (if CHR ''/'' \<in> set addr_str then Inl AddressValueError
      else v4_int_from_string addr_str)"

subsection \<open>Netmasks\<close>

text \<open>
  \<open>_split_optional_netmask\<close> and \<open>_split_addr_prefix\<close>: the address and the mask
  text; \<open>None\<close> stands for the integer \<open>_max_prefixlen\<close> that is returned when the
  string holds no slash.
\<close>

definition split_addr_prefix :: "string \<Rightarrow> value_error + string \<times> string option" where
  "split_addr_prefix address =
     (let addr = split_on CHR ''/'' address in
      if length addr > 2 then Inl AddressValueError
      else (case addr of
              [a, m] \<Rightarrow> Inr (a, Some m)
            | _ \<Rightarrow> Inr (hd addr, None)))"

text \<open>
  \<open>_prefix_from_prefix_string\<close>. \<open>int(prefixlen_str)\<close> raises \<open>ValueError\<close> on a
  digit string longer than the interpreter's limit for int conversion (4300 digits by
  default), also when the digits are zeros.
\<close>

definition prefix_from_prefix_string :: "nat \<Rightarrow> string \<Rightarrow> value_error + nat" where
  "prefix_from_prefix_string max_prefixlen prefixlen_str =
     (if \<not> (prefixlen_str \<noteq> [] \<and> list_all isdigit prefixlen_str) then Inl NetmaskValueError
      else if length prefixlen_str > 4300 then Inl NetmaskValueError
      else (let prefixlen = digits_val prefixlen_str in
            if \<not> prefixlen \<le> max_prefixlen then Inl NetmaskValueError
            else Inr prefixlen))"

text \<open>\<open>_count_righthand_zero_bits\<close>.\<close>

definition count_righthand_zero_bits :: "int \<Rightarrow> nat \<Rightarrow> nat" where
  "count_righthand_zero_bits number bits =
     (if number = 0 then bits
      else min bits (bit_length (and (not number) (number - 1))))"

text \<open>\<open>_prefix_from_ip_int\<close>.\<close>

definition prefix_from_ip_int :: "nat \<Rightarrow> int \<Rightarrow> value_error + nat" where
  "prefix_from_ip_int max_prefixlen ip_int =
     (let trailing_zeroes = count_righthand_zero_bits ip_int max_prefixlen;
          prefixlen = max_prefixlen - trailing_zeroes;
          leading_ones = drop_bit trailing_zeroes ip_int;
          all_ones = push_bit prefixlen 1 - 1
      in if leading_ones \<noteq> all_ones then Inl ValueError else Inr prefixlen)"

definition ALL_ONES :: "nat \<Rightarrow> int" where
  "ALL_ONES max_prefixlen = 2 ^ max_prefixlen - 1"

text \<open>\<open>_prefix_from_ip_string\<close>, which only IPv4 reaches.\<close>

definition prefix_from_ip_string :: "string \<Rightarrow> value_error + nat" where
  "prefix_from_ip_string ip_str =
     (case v4_int_from_string ip_str of
        Inl e \<Rightarrow> Inl NetmaskValueError
      | Inr ip_int \<Rightarrow>
          (case prefix_from_ip_int 32 ip_int of
             Inr p \<Rightarrow> Inr p
           | Inl e \<Rightarrow>
               (case prefix_from_ip_int 32 (xor ip_int (ALL_ONES 32)) of
                  Inr p \<Rightarrow> Inr p
                | Inl e' \<Rightarrow> Inl NetmaskValueError)))"

text \<open>\<open>_ip_int_from_prefix\<close>.\<close>

definition ip_int_from_prefix :: "nat \<Rightarrow> nat \<Rightarrow> int" where
  "ip_int_from_prefix max_prefixlen prefixlen =
     xor (ALL_ONES max_prefixlen) (drop_bit prefixlen (ALL_ONES max_prefixlen))"

text \<open>\<open>_BaseV4._make_netmask\<close>: the netmask and the prefix length.\<close>

definition v4_make_netmask :: "string option \<Rightarrow> value_error + int \<times> nat" where
  "v4_make_netmask arg =
     (case (case arg of
              None \<Rightarrow> Inr 32
            | Some m \<Rightarrow>
                (case prefix_from_prefix_string 32 m of
                   Inr p \<Rightarrow> Inr p
                 | Inl NetmaskValueError \<Rightarrow> prefix_from_ip_string m
                 | Inl e \<Rightarrow> Inl e)) of
        Inl e \<Rightarrow> Inl e
      | Inr prefixlen \<Rightarrow> Inr (ip_int_from_prefix 32 prefixlen, prefixlen))"

text \<open>\<open>IPv4Network(address, strict)\<close>: the network address and the prefix length.\<close>

definition IPv4Network :: "string \<Rightarrow> bool \<Rightarrow> value_error + int \<times> nat" where
  "IPv4Network address strict =
     (case split_addr_prefix address of
        Inl e \<Rightarrow> Inl e
      | Inr (addr, mask_arg) \<Rightarrow>
          (case IPv4Address addr of
             Inl e \<Rightarrow> Inl e
           | Inr packed \<Rightarrow>
               (case v4_make_netmask mask_arg of
                  Inl e \<Rightarrow> Inl e
                | Inr (netmask, prefixlen) \<Rightarrow>
                    if and packed netmask \<noteq> packed then
                      (if strict then Inl ValueError else Inr (and packed netmask, prefixlen))
                    else Inr (packed, prefixlen))))"

subsection \<open>IPv6\<close>

definition ishex :: "char \<Rightarrow> bool" where
  "ishex c = (c \<in> set ''0123456789ABCDEFabcdef'')"

definition hex_val :: "char \<Rightarrow> nat" where
  "hex_val c =
     (if isdigit c then of_char c - 48
      else if c \<in> set ''abcdef'' then of_char c - 87
      else of_char c - 55)"

text \<open>\<open>'%x' % n\<close>: lower-case hexadecimal without leading zeros.\<close>

fun hex_str :: "nat \<Rightarrow> string" where
  "hex_str n =
     (if n < 16 then [''0123456789abcdef'' ! n]
      else hex_str (n div 16) @ [''0123456789abcdef'' ! (n mod 16)])"

declare hex_str.simps [simp del]

text \<open>\<open>_BaseV6._parse_hextet\<close>; \<open>int('', 16)\<close> raises \<open>ValueError\<close>.\<close>

definition parse_hextet :: "string \<Rightarrow> value_error + int" where
  "parse_hextet hextet_str =
     (if \<not> list_all ishex hextet_str then Inl ValueError
      else if length hextet_str > 4 then Inl ValueError
      else if hextet_str = [] then Inl ValueError
      else Inr (int (foldl (\<lambda>a c. 16 * a + hex_val c) 0 hextet_str)))"

text \<open>
  \<open>_BaseV6._ip_int_from_string\<close>, in the three steps of its body. First the parts:
  the string split at colons, with an IPv4-style last part replaced by its two hextets.
\<close>

definition v6_parts :: "string \<Rightarrow> value_error + string list" where
  "v6_parts ip_str =
     (if ip_str = [] then Inl AddressValueError
      else (let parts = split_on CHR '':'' ip_str in
            if length parts < 3 then Inl AddressValueError
            else if CHR ''.'' \<in> set (last parts) then
              (case IPv4Address (last parts) of
                 Inl e \<Rightarrow> Inl AddressValueError
               | Inr ipv4_int \<Rightarrow>
                   Inr (butlast parts @
                        [hex_str (nat (and (drop_bit 16 ipv4_int) 65535)),
                         hex_str (nat (and ipv4_int 65535))]))
            else Inr parts))"

text \<open>
  Then the layout: \<open>parts_hi\<close>, \<open>parts_lo\<close> and \<open>parts_skipped\<close>. \<open>empties\<close> are the
  indices that the loop over \<open>range(1, len(parts) - 1)\<close> finds empty; a second one
  raises, and the only one is \<open>skip_index\<close>.
\<close>

definition v6_layout :: "string list \<Rightarrow> value_error + nat \<times> nat \<times> nat" where
  "v6_layout parts =
     (if length parts > 9 then Inl AddressValueError
      else (let empties = filter (\<lambda>i. parts ! i = []) [1..<length parts - 1] in
            if length empties > 1 then Inl AddressValueError
            else (case empties of
                    skip_index # _ \<Rightarrow>
                      (let parts_hi = skip_index;
                           parts_lo = length parts - skip_index - 1 in
                       if hd parts = [] \<and> parts_hi - 1 \<noteq> 0 then Inl AddressValueError
                       else (let parts_hi = (if hd parts = [] then parts_hi - 1 else parts_hi) in
                             if last parts = [] \<and> parts_lo - 1 \<noteq> 0 then Inl AddressValueError
                             else (let parts_lo =
                                         (if last parts = [] then parts_lo - 1 else parts_lo) in
                                   if 8 < Suc (parts_hi + parts_lo) then Inl AddressValueError
                                   else Inr (parts_hi, parts_lo, 8 - (parts_hi + parts_lo)))))
                  | [] \<Rightarrow>
                      if length parts \<noteq> 8 then Inl AddressValueError
                      else if hd parts = [] then Inl AddressValueError
                      else if last parts = [] then Inl AddressValueError
                      else Inr (length parts, 0, 0))))"

text \<open>Last the hextets: the first \<open>parts_hi\<close> parts, the skipped zeros, the last
  \<open>parts_lo\<close> parts.\<close>

definition v6_int_from_string :: "string \<Rightarrow> value_error + int" where
  "v6_int_from_string ip_str =
     (case v6_parts ip_str of
        Inl e \<Rightarrow> Inl e
      | Inr parts \<Rightarrow>
          (case v6_layout parts of
             Inl e \<Rightarrow> Inl e
           | Inr (parts_hi, parts_lo, parts_skipped) \<Rightarrow>
               (case parse_each parse_hextet (take parts_hi parts) of
                  Inl e \<Rightarrow> Inl AddressValueError
                | Inr his \<Rightarrow>
                    (case parse_each parse_hextet (drop (length parts - parts_lo) parts) of
                       Inl e \<Rightarrow> Inl AddressValueError
                     | Inr los \<Rightarrow>
                         Inr (foldl (\<lambda>a h. or (push_bit 16 a) h)
                                (push_bit (16 * parts_skipped)
                                   (foldl (\<lambda>a h. or (push_bit 16 a) h) 0 his))
                                los)))))"

text \<open>\<open>_BaseV6._split_scope_id\<close>, on \<open>ip_str.partition('%')\<close>.\<close>

definition split_scope_id :: "string \<Rightarrow> value_error + string \<times> string option" where
  "split_scope_id ip_str =
     (let addr = takeWhile (\<lambda>c. c \<noteq> CHR ''%'') ip_str;
          rest = dropWhile (\<lambda>c. c \<noteq> CHR ''%'') ip_str in
      if rest = [] then Inr (addr, None)
      else (let scope_id = tl rest in
            if scope_id = [] \<or> CHR ''%'' \<in> set scope_id then Inl AddressValueError
            else Inr (addr, Some scope_id)))"

text \<open>\<open>IPv6Address(address)\<close> for a string: the integer and the scope id.\<close>

definition IPv6Address :: "string \<Rightarrow> value_error + int \<times> string option" where
  "IPv6Address addr_str =
     (if CHR ''/'' \<in> set addr_str then Inl AddressValueError
      else (case split_scope_id addr_str of
              Inl e \<Rightarrow> Inl e
            | Inr (addr, scope_id) \<Rightarrow>
                (case v6_int_from_string addr of
                   Inl e \<Rightarrow> Inl e
                 | Inr ip \<Rightarrow> Inr (ip, scope_id))))"

text \<open>\<open>_BaseV6._make_netmask\<close>: a prefix length only.\<close>

definition v6_make_netmask :: "string option \<Rightarrow> value_error + int \<times> nat" where
  "v6_make_netmask arg =
     (case (case arg of
              None \<Rightarrow> Inr 128
            | Some m \<Rightarrow> prefix_from_prefix_string 128 m) of
        Inl e \<Rightarrow> Inl e
      | Inr prefixlen \<Rightarrow> Inr (ip_int_from_prefix 128 prefixlen, prefixlen))"

text \<open>\<open>IPv6Network(address, strict)\<close>.\<close>

definition IPv6Network :: "string \<Rightarrow> bool \<Rightarrow> value_error + int \<times> nat" where
  "IPv6Network address strict =
     (case split_addr_prefix address of
        Inl e \<Rightarrow> Inl e
      | Inr (addr, mask_arg) \<Rightarrow>
          (case IPv6Address addr of
             Inl e \<Rightarrow> Inl e
           | Inr (packed, scope_id) \<Rightarrow>
               (case v6_make_netmask mask_arg of
                  Inl e \<Rightarrow> Inl e
                | Inr (netmask, prefixlen) \<Rightarrow>
                    if and packed netmask \<noteq> packed then
                      (if strict then Inl ValueError else Inr (and packed netmask, prefixlen))
                    else Inr (packed, prefixlen))))"

subsection \<open>The two factory functions\<close>

datatype ip_addr = V4Addr int | V6Addr int "string option"

datatype ip_net = V4Net int nat | V6Net int nat

text \<open>\<open>ipaddress.ip_address\<close>: only the two subclasses are caught on the way.\<close>

definition ip_address :: "string \<Rightarrow> value_error + ip_addr" where
  "ip_address address =
     (case IPv4Address address of
        Inr a \<Rightarrow> Inr (V4Addr a)
      | Inl ValueError \<Rightarrow> Inl ValueError
      | Inl e4 \<Rightarrow>
          (case IPv6Address address of
             Inr (a, scope_id) \<Rightarrow> Inr (V6Addr a scope_id)
           | Inl e6 \<Rightarrow> Inl ValueError))"

text \<open>\<open>ipaddress.ip_network\<close>: a network with host bits set under \<open>strict\<close> raises a
  plain \<open>ValueError\<close>, which is not caught.\<close>

definition ip_network :: "string \<Rightarrow> bool \<Rightarrow> value_error + ip_net" where
  "ip_network address strict =
     (case IPv4Network address strict of
        Inr (a, p) \<Rightarrow> Inr (V4Net a p)
      | Inl ValueError \<Rightarrow> Inl ValueError
      | Inl e4 \<Rightarrow>
          (case IPv6Network address strict of
             Inr (a, p) \<Rightarrow> Inr (V6Net a p)
           | Inl e6 \<Rightarrow> Inl ValueError))"

section \<open>\<open>validate_ip\<close>\<close>

definition validate_ip :: "string \<Rightarrow> bool" where
  "validate_ip ip =
     (if CHR ''/'' \<in> set ip then
        (case ip_network ip False of Inr n \<Rightarrow> True | Inl e \<Rightarrow> False)
      else
        (case ip_address ip of Inr a \<Rightarrow> True | Inl e \<Rightarrow> False))"

section \<open>The last-target file\<close>

text \<open>
  The file \<open>.last_target\<close> as the two functions meet it: missing
  (\<open>os.path.exists\<close> is false), or present, with whether \<open>open(..., "r")\<close> and
  \<open>open(..., "w")\<close> succeed on it, and its text. A directory of that name, or a file
  whose permissions forbid reading, is present and not readable. A missing file can be
  created.
\<close>

datatype file_state = Missing | Present bool bool string

text \<open>
  Reading in text mode translates line endings: \<open>\r\n\<close> and a lone \<open>\r\<close> both come
  back as \<open>\n\<close>. Writing leaves the text as it is (POSIX).
\<close>

fun universal_newlines :: "string \<Rightarrow> string" where
  "universal_newlines [] = []"
| "universal_newlines [c] = (if c = CHR 0x0D then [CHR 0x0A] else [c])"
| "universal_newlines (c # d # cs) =
     (if c = CHR 0x0D then
        (if d = CHR 0x0A then CHR 0x0A # universal_newlines cs
         else CHR 0x0A # universal_newlines (d # cs))
      else c # universal_newlines (d # cs))"

definition load_last_ip :: "file_state \<Rightarrow> error + string option" where
  "load_last_ip f =
     (case f of
        Missing \<Rightarrow> Inr None
      | Present readable writable text \<Rightarrow>
          if readable then Inr (Some (strip (universal_newlines text)))
          else Inl OSError)"

definition save_last_ip :: "string \<Rightarrow> file_state \<Rightarrow> error + file_state" where
  "save_last_ip ip f =
     (case f of
        Missing \<Rightarrow> Inr (Present True True ip)
      | Present readable writable text \<Rightarrow>
          if writable then Inr (Present readable writable ip)
          else Inl OSError)"

section \<open>The scan catalogue\<close>

record scan_profile =
  name :: string
  command :: "string list"
  description :: string

definition SCANS :: "(string \<times> scan_profile) list" where
  "SCANS =
     [(''1'', \<lparr>name = ''Host Discovery (Ping Scan)'',
              command = [''nmap'', ''-sn''],
              description = ''Checks which hosts are alive without scanning ports.''\<rparr>),
      (''2'', \<lparr>name = ''Quick Port Scan'',
              command = [''nmap''],
              description = ''Scans the most common 1000 TCP ports.''\<rparr>),
      (''3'', \<lparr>name = ''Full Port Scan'',
              command = [''nmap'', ''-p-''],
              description = ''Scans all 65535 TCP ports.''\<rparr>),
      (''4'', \<lparr>name = ''Service & Version Detection'',
              command = [''nmap'', ''-sV'', ''-sC''],
              description = ''Detects service versions and runs default scripts.''\<rparr>),
      (''5'', \<lparr>name = ''OS Detection'',
              command = [''nmap'', ''-O''],
              description = ''Attempts to identify the target operating system.''\<rparr>),
      (''6'', \<lparr>name = ''Stealth Mode (SYN Scan)'',
              command = [''nmap'', ''-sS'', ''-Pn''],
              description =
                ''Scans without completing TCP connections. (Usually requires sudo/root)''\<rparr>)]"

section \<open>The menu\<close>

text \<open>\<open>str.lower()\<close> on the code points below 256: the letters that have a lower-case
  form there, and those forms.\<close>

definition uppercase :: string where
  "uppercase =
     ''ABCDEFGHIJKLMNOPQRSTUVWXYZ'' @
       [CHR 0xC0, CHR 0xC1, CHR 0xC2, CHR 0xC3, CHR 0xC4, CHR 0xC5, CHR 0xC6, CHR 0xC7,
        CHR 0xC8, CHR 0xC9, CHR 0xCA, CHR 0xCB, CHR 0xCC, CHR 0xCD, CHR 0xCE, CHR 0xCF,
        CHR 0xD0, CHR 0xD1, CHR 0xD2, CHR 0xD3, CHR 0xD4, CHR 0xD5, CHR 0xD6, CHR 0xD8,
        CHR 0xD9, CHR 0xDA, CHR 0xDB, CHR 0xDC, CHR 0xDD, CHR 0xDE]"

definition lowercase :: string where
  "lowercase =
     ''abcdefghijklmnopqrstuvwxyz'' @
       [CHR 0xE0, CHR 0xE1, CHR 0xE2, CHR 0xE3, CHR 0xE4, CHR 0xE5, CHR 0xE6, CHR 0xE7,
        CHR 0xE8, CHR 0xE9, CHR 0xEA, CHR 0xEB, CHR 0xEC, CHR 0xED, CHR 0xEE, CHR 0xEF,
        CHR 0xF0, CHR 0xF1, CHR 0xF2, CHR 0xF3, CHR 0xF4, CHR 0xF5, CHR 0xF6, CHR 0xF8,
        CHR 0xF9, CHR 0xFA, CHR 0xFB, CHR 0xFC, CHR 0xFD, CHR 0xFE]"

definition lower_char :: "char \<Rightarrow> char" where
  "lower_char c = (case map_of (zip uppercase lowercase) c of Some l \<Rightarrow> l | None \<Rightarrow> c)"

definition lower :: "string \<Rightarrow> string" where
  "lower s = map lower_char s"

text \<open>
  What one pass through \<open>menu\<close> takes from outside: the two answers that
  \<open>Prompt.ask\<close> returns, whether \<open>shutil.which("nmap")\<close> finds the tool, and what
  \<open>run_scan\<close> meets.
\<close>

record interaction =
  choice_answer :: string
  target_answer :: string
  nmap_found :: bool
  outside :: environment

text \<open>The program's surroundings: the console so far, the last-target file, and the
  scans that were run.\<close>

record world =
  console :: "event list"
  last_target_file :: file_state
  runs :: "scan_run list"

text \<open>How a call of \<open>menu\<close> ends when no exception escapes: it returns to the loop,
  or \<open>exit()\<close> ends the program.\<close>

datatype control = Returned | Exited

definition say :: "event list \<Rightarrow> world \<Rightarrow> world" where
  "say es w = w\<lparr>console := console w @ es\<rparr>"

definition print_banner :: "world \<Rightarrow> world" where
  "print_banner w = say [Banner] w"

definition explain_scans :: "world \<Rightarrow> world" where
  "explain_scans w =
     say (ExplainHeader #
          concat (map (\<lambda>(key, data).
                         [ExplainEntry key (name data),
                          ExplainCommand (join_space (command data)),
                          ExplainWhat (description data)]) SCANS)) w"

definition check_nmap :: "bool \<Rightarrow> world \<Rightarrow> bool \<times> world" where
  "check_nmap found w = (if \<not> found then (False, say [NmapMissing] w) else (True, w))"

text \<open>\<open>last_ip if target_input.lower() == 'r' and last_ip else target_input\<close>: a
  last target counts when it is neither \<open>None\<close> nor empty.\<close>

definition choose_target :: "string option \<Rightarrow> string \<Rightarrow> string" where
  "choose_target last_ip target_input =
     (case last_ip of
        Some l \<Rightarrow> if lower target_input = ''r'' \<and> l \<noteq> [] then l else target_input
      | None \<Rightarrow> target_input)"

text \<open>
  \<open>Prompt.ask(prompt_msg)\<close> for the target. The prompt is markup too, and holds the
  last target when there is one.
\<close>

definition ask_target :: "(event \<Rightarrow> bool) \<Rightarrow> string option \<Rightarrow> world \<Rightarrow> error + world" where
  "ask_target fails last_ip w =
     (case last_ip of
        Some l \<Rightarrow>
          if l \<noteq> [] then
            (if fails (AskTarget (Some l)) then Inl MarkupError
             else Inr (say [AskTarget (Some l)] w))
          else Inr (say [AskTarget None] w)
      | None \<Rightarrow> Inr (say [AskTarget None] w))"

text \<open>\<open>menu\<close>. An exception that leaves it ends the program.\<close>

definition menu :: "interaction \<Rightarrow> world \<Rightarrow> error + world \<times> control" where
  "menu i w =
     (let w1 = say [AskChoice]
                 (say (map (\<lambda>(key, data). MenuEntry key (name data)) SCANS @
                       [MenuExplain, MenuExit])
                    (print_banner (say [ScreenCleared] w)));
          choice = lower (strip (choice_answer i)) in
      if choice = ''x'' then Inr (say [Exiting] w1, Exited)
      else if choice = ''e'' then Inr (explain_scans w1, Returned)
      else (case map_of SCANS choice of
              Some profile \<Rightarrow>
                (case load_last_ip (last_target_file w1) of
                   Inl e \<Rightarrow> Inl e
                 | Inr last_ip \<Rightarrow>
                     (case ask_target (markup_fails (outside i)) last_ip w1 of
                        Inl e \<Rightarrow> Inl e
                      | Inr w2 \<Rightarrow>
                          (let target_input = strip (target_answer i);
                               ip = choose_target last_ip target_input in
                           if \<not> validate_ip ip then Inr (say [InvalidIP] w2, Returned)
                           else
                             (case save_last_ip ip (last_target_file w2) of
                                Inl e \<Rightarrow> Inl e
                              | Inr f \<Rightarrow>
                                  (case check_nmap (nmap_found i)
                                          (w2\<lparr>last_target_file := f\<rparr>) of
                                     (True, w3) \<Rightarrow>
                                       (case run_scan (outside i) (command profile) ip of
                                          Inl (e, r) \<Rightarrow> Inl e
                                        | Inr r \<Rightarrow>
                                            Inr (say (printed (final r))
                                                   (w3\<lparr>runs := runs w3 @ [r]\<rparr>),
                                                 Returned))
                                   | (False, w3) \<Rightarrow> Inr (w3, Returned))))))
            | None \<Rightarrow> Inr (say [InvalidSelection] w1, Returned)))"

text \<open>
  \<open>while True: menu()\<close>, run on the interactions that have happened so far: it stops
  when \<open>exit()\<close> is called or an exception escapes, and is otherwise back at the top of
  the loop.
\<close>

fun main_loop :: "world \<Rightarrow> interaction list \<Rightarrow> error + world \<times> control" where
  "main_loop w [] = Inr (w, Returned)"
| "main_loop w (i # rest) =
     (case menu i w of
        Inl e \<Rightarrow> Inl e
      | Inr (w', Exited) \<Rightarrow> Inr (w', Exited)
      | Inr (w', Returned) \<Rightarrow> main_loop w' rest)"

section \<open>Facts about the read loop\<close>

lemma effects_simps [simp]: "effects (Inl (e, s)) = s" "effects (Inr s) = s"
  by (simp_all add: effects_def)

lemma raised_simps [simp]: "raised (Inl (e, s)) = Some e" "raised (Inr a) = None"
  by (simp_all add: raised_def)

lemma raised_None_iff: "raised r = None \<longleftrightarrow> (\<exists>a. r = Inr a)"
  by (cases r) (auto simp add: raised_def)

lemma console_print_effects:
  "printed (effects (console_print fails e st)) = (if fails e then printed st else printed st @ [e])"
  "log_writes (effects (console_print fails e st)) = log_writes st"
  "completed (effects (console_print fails e st)) = completed st"
  by (simp_all add: console_print_def emit_def)

lemma console_print_raised:
  "raised (console_print fails e st) = (if fails e then Some MarkupError else None)"
  by (simp add: console_print_def)

lemma process_line_empty: "strip line = [] \<Longrightarrow> process_line fails st line = Inr st"
  by (simp add: process_line_def)

lemma process_line_log:
  "strip line \<noteq> [] \<Longrightarrow>
   log_writes (effects (process_line fails st line)) = log_writes st @ [strip line @ [CHR 0x0A]]"
  by (simp add: process_line_def Let_def console_print_effects split: option.splits)

lemma search_percent_nonempty: "search_percent s = Some g \<Longrightarrow> s \<noteq> []"
  by (cases s) simp_all

lemma process_line_marker:
  "search_percent (strip line) = Some g \<Longrightarrow>
   process_line fails st line =
     Inr (st\<lparr>log_writes := log_writes st @ [strip line @ [CHR 0x0A]],
            completed := float_of_group g\<rparr>)"
  by (auto simp add: process_line_def Let_def)

text \<open>Whether an iteration raises does not depend on the state.\<close>

lemma raised_process_line:
  "raised (process_line fails st line) = raised (process_line fails st' line)"
  by (simp add: process_line_def Let_def console_print_raised split: option.splits)

lemma line_aborts_iff: "line_aborts fails line \<longleftrightarrow> raised (process_line fails st line) \<noteq> None"
  unfolding line_aborts_def by (subst raised_process_line [of fails _ line st]) simp

lemma process_line_Inl: "process_line fails st line = Inl x \<Longrightarrow> line_aborts fails line"
  by (cases x) (simp add: line_aborts_iff [of fails line st])

lemma process_line_Inr: "process_line fails st line = Inr st' \<Longrightarrow> \<not> line_aborts fails line"
  by (simp add: line_aborts_iff [of fails line st])

lemma marker_never_aborts: "search_percent (strip line) = Some g \<Longrightarrow> \<not> line_aborts fails line"
  by (simp add: line_aborts_def process_line_marker)

lemma read_loop_append:
  "read_loop fails st (xs @ ys) =
     (case read_loop fails st xs of Inl x \<Rightarrow> Inl x | Inr st' \<Rightarrow> read_loop fails st' ys)"
  by (induction xs arbitrary: st) (auto split: sum.splits)

lemma read_loop_log:
  "log_writes (effects (read_loop fails st lines)) =
   log_writes st @
     map (\<lambda>l. strip l @ [CHR 0x0A]) (filter (\<lambda>l. strip l \<noteq> []) (consumed fails lines))"
proof (induction lines arbitrary: st)
  case Nil
  show ?case by simp
next
  case (Cons l ls)
  show ?case
  proof (cases "process_line fails st l")
    case (Inl x)
    then have ab: "line_aborts fails l" by (rule process_line_Inl)
    have ne: "strip l \<noteq> []"
      using Inl by (auto simp add: process_line_def)
    have "log_writes (effects (process_line fails st l)) = log_writes st @ [strip l @ [CHR 0x0A]]"
      using ne by (rule process_line_log)
    then show ?thesis
      using Inl ab ne by simp
  next
    case (Inr st')
    then have ab: "\<not> line_aborts fails l" by (rule process_line_Inr)
    have step: "log_writes st' =
        log_writes st @ map (\<lambda>l. strip l @ [CHR 0x0A]) (filter (\<lambda>l. strip l \<noteq> []) [l])"
    proof (cases "strip l = []")
      case True
      then show ?thesis using Inr by (simp add: process_line_empty)
    next
      case False
      then show ?thesis using process_line_log [OF False, of fails st] Inr by simp
    qed
    show ?thesis
      using Inr ab step Cons.IH [of st'] by simp
  qed
qed

lemma read_loop_raised:
  "raised (read_loop fails st lines) = None \<longleftrightarrow> list_all (\<lambda>l. \<not> line_aborts fails l) lines"
proof (induction lines arbitrary: st)
  case Nil
  show ?case by simp
next
  case (Cons l ls)
  show ?case
  proof (cases "process_line fails st l")
    case (Inl x)
    then show ?thesis
      using process_line_Inl [OF Inl] by (cases x) simp
  next
    case (Inr st')
    then show ?thesis
      using process_line_Inr [OF Inr] Cons.IH [of st'] by simp
  qed
qed

lemma consumed_all: "list_all (\<lambda>l. \<not> line_aborts fails l) lines \<Longrightarrow> consumed fails lines = lines"
  by (induction lines) simp_all

lemma consumed_past:
  "list_all (\<lambda>l. \<not> line_aborts fails l) pre \<Longrightarrow>
   consumed fails (pre @ line # post) = pre @ consumed fails (line # post)"
  by (induction pre) simp_all

lemma consumed_cut:
  "\<not> list_all (\<lambda>l. \<not> line_aborts fails l) lines \<Longrightarrow>
   \<exists>pre bad post. lines = pre @ bad # post \<and> consumed fails lines = pre @ [bad] \<and>
     list_all (\<lambda>l. \<not> line_aborts fails l) pre \<and> line_aborts fails bad"
proof (induction lines)
  case Nil
  then show ?case by simp
next
  case (Cons x xs)
  show ?case
  proof (cases "line_aborts fails x")
    case True
    then have "x # xs = [] @ x # xs \<and> consumed fails (x # xs) = [] @ [x] \<and>
        list_all (\<lambda>l. \<not> line_aborts fails l) [] \<and> line_aborts fails x"
      by simp
    then show ?thesis by blast
  next
    case False
    with Cons.prems have "\<not> list_all (\<lambda>l. \<not> line_aborts fails l) xs"
      by simp
    from Cons.IH [OF this] obtain pre bad post where
      h: "xs = pre @ bad # post" "consumed fails xs = pre @ [bad]"
        "list_all (\<lambda>l. \<not> line_aborts fails l) pre" "line_aborts fails bad"
      by blast
    have "x # xs = (x # pre) @ bad # post \<and> consumed fails (x # xs) = (x # pre) @ [bad] \<and>
        list_all (\<lambda>l. \<not> line_aborts fails l) (x # pre) \<and> line_aborts fails bad"
      using h False by simp
    then show ?thesis by blast
  qed
qed

text \<open>A line-carrying event appears only for a line that the classification sends to
  the display.\<close>

lemma rendered_process_line:
  "rendered l (effects (process_line fails st line)) \<Longrightarrow>
   rendered l st \<or>
   (l = strip line \<and> l \<noteq> [] \<and> search_percent l = None \<and>
    (match_port l \<or> contains ''OS details:'' l \<or> contains ''Service Info:'' l \<or>
     startswith ''|'' l \<or> \<not> contains ''Stats:'' l))"
  by (auto simp add: process_line_def Let_def console_print_def emit_def rendered_def
      split: option.splits if_splits)

lemma rendered_read_loop:
  "rendered l (effects (read_loop fails st lines)) \<Longrightarrow>
   rendered l st \<or>
   (l \<noteq> [] \<and> search_percent l = None \<and>
    (match_port l \<or> contains ''OS details:'' l \<or> contains ''Service Info:'' l \<or>
     startswith ''|'' l \<or> \<not> contains ''Stats:'' l))"
proof (induction lines arbitrary: st)
  case Nil
  then show ?case by simp
next
  case (Cons x xs)
  show ?case
  proof (cases "process_line fails st x")
    case (Inl y)
    with Cons.prems have "rendered l (effects (process_line fails st x))"
      by (cases y) simp
    then show ?thesis
      using rendered_process_line [of l fails st x] by blast
  next
    case (Inr st')
    with Cons.prems have "rendered l (effects (read_loop fails st' xs))"
      by simp
    from Cons.IH [OF this] show ?thesis
      using rendered_process_line [of l fails st x] Inr by auto
  qed
qed

lemma rendered_loop_start: "\<not> rendered l (loop_start cmd target)"
  by (simp add: rendered_def loop_start_def)

text \<open>What \<open>run_scan\<close> has done, whether or not it raised, once it got as far as its
  loop.\<close>

lemma finish_effects:
  "log_writes (effects (finish fails lf rc st)) = log_writes st"
  "completed (effects (finish fails lf rc st)) = Finite 100"
  "printed (effects (finish fails lf rc st)) =
     printed st @ (if rc \<noteq> 0 then [ScanFailed]
                   else if fails (ReportSaved lf) then [ScanComplete]
                   else [ScanComplete, ReportSaved lf])"
  by (simp_all add: finish_def Let_def console_print_def emit_def)

lemma finish_raised:
  "raised (finish fails lf rc st) =
     (if rc = 0 \<and> fails (ReportSaved lf) then Some MarkupError else None)"
  by (simp add: finish_def Let_def console_print_def)

lemma run_scan_loop:
  assumes "reaches_loop env cmd target proc"
  shows "run_scan env cmd target =
    (case read_loop (markup_fails env) (loop_start cmd target) (stdout_lines proc) of
       Inl (e, st) \<Rightarrow>
         Inl (e, \<lparr>argv = Some (full_command cmd target),
                  log_filename = Some (log_name env target), final = st\<rparr>)
     | Inr st4 \<Rightarrow>
         (case finish (markup_fails env) (log_name env target) (returncode proc) st4 of
            Inl (e, st) \<Rightarrow>
              Inl (e, \<lparr>argv = Some (full_command cmd target),
                       log_filename = Some (log_name env target), final = st\<rparr>)
          | Inr st5 \<Rightarrow>
              Inr \<lparr>argv = Some (full_command cmd target),
                   log_filename = Some (log_name env target), final = st5\<rparr>))"
  using assms
  by (simp add: reaches_loop_def run_scan_def Let_def console_print_def emit_def loop_start_def)

lemma run_scan_final:
  assumes "reaches_loop env cmd target proc"
  shows "final (effects (run_scan env cmd target)) =
    (case read_loop (markup_fails env) (loop_start cmd target) (stdout_lines proc) of
       Inl (e, st) \<Rightarrow> st
     | Inr st4 \<Rightarrow>
         effects (finish (markup_fails env) (log_name env target) (returncode proc) st4))"
  by (simp add: run_scan_loop [OF assms] split: sum.splits prod.splits)

lemma run_scan_log:
  assumes "reaches_loop env cmd target proc"
  shows "log_writes (final (effects (run_scan env cmd target))) =
    map (\<lambda>l. strip l @ [CHR 0x0A])
      (filter (\<lambda>l. strip l \<noteq> []) (consumed (markup_fails env) (stdout_lines proc)))"
proof -
  have start: "log_writes (loop_start cmd target) = []"
    by (simp add: loop_start_def)
  show ?thesis
    using read_loop_log [of "markup_fails env" "loop_start cmd target" "stdout_lines proc"]
    by (auto simp add: run_scan_final [OF assms] start finish_effects
        split: sum.splits prod.splits)
qed

text \<open>Without a child and an open log file nothing is logged and no line is
  rendered.\<close>

lemma run_scan_early:
  assumes "\<not> (\<exists>proc. reaches_loop env cmd target proc)"
  shows "log_writes (final (effects (run_scan env cmd target))) = []"
    and "\<not> rendered l (final (effects (run_scan env cmd target)))"
    and "raised (run_scan env cmd target) \<noteq> None"
  using assms
  by (auto simp add: reaches_loop_def run_scan_def Let_def console_print_def emit_def
      rendered_def split: option.splits)

lemma rendered_run_scan:
  assumes "rendered l (final (effects (run_scan env cmd target)))"
  shows "l \<noteq> [] \<and> search_percent l = None \<and>
    (match_port l \<or> contains ''OS details:'' l \<or> contains ''Service Info:'' l \<or>
     startswith ''|'' l \<or> \<not> contains ''Stats:'' l)"
proof (cases "\<exists>proc. reaches_loop env cmd target proc")
  case False
  then show ?thesis
    using assms run_scan_early(2) [of env cmd target l] by blast
next
  case True
  then obtain proc where r: "reaches_loop env cmd target proc" ..
  have "rendered l (effects (read_loop (markup_fails env) (loop_start cmd target)
      (stdout_lines proc)))"
    using assms
    by (auto simp add: run_scan_final [OF r] rendered_def finish_effects
        split: sum.splits prod.splits if_splits)
  then show ?thesis
    using rendered_read_loop rendered_loop_start by blast
qed

lemma completed_unmarked:
  "search_percent (strip line) = None \<Longrightarrow>
   completed (effects (process_line fails st line)) = completed st"
  by (simp add: process_line_def Let_def console_print_effects)

lemma completed_read_loop_unmarked:
  "list_all (\<lambda>l. search_percent (strip l) = None) lines \<Longrightarrow>
   completed (effects (read_loop fails st lines)) = completed st"
proof (induction lines arbitrary: st)
  case Nil
  show ?case by simp
next
  case (Cons l ls)
  then have u: "completed (effects (process_line fails st l)) = completed st"
    by (simp add: completed_unmarked)
  show ?case
  proof (cases "process_line fails st l")
    case (Inl x)
    then show ?thesis using u by (cases x) simp
  next
    case (Inr st')
    then show ?thesis using u Cons.IH [of st'] Cons.prems by simp
  qed
qed






lemmas line_eval =
  strip_def isspace_def percent_here_def isdigit_def startswith_def match_port_def
  digits_val_def digit_val_def

lemmas float_eval =
  float_of_group_def round_to_double_def floor_log2_def at_least_pow2_def bit_length.simps
  times_pow2_def round_half_even_def Let_def

section \<open>Progress markers\<close>

text \<open>
  Claim C1. A line whose trimmed form holds a number with a decimal point immediately
  followed by \<open>% done\<close> sets the progress value to \<open>float\<close> of that number, prints
  nothing, cannot raise, and is written, trimmed, to the log. In a stream
  \<open>pre @ line # post\<close> that the loop reads as far as the line (no iteration for a line of
  \<open>pre\<close> raises): the trimmed line is in the log, the progress value is still that number
  when the loop ends, normally or by an exception, if no later line carries a marker,
  and no console event carries the line. The same for the whole call of \<open>run_scan\<close> that
  gets as far as its loop with a child writing that stream: the line is in the log of
  the call; if the loop then raises before another marker, the call ends with the
  progress value at that number, and if the stream is read to its end, at 100; and no
  call of \<open>run_scan\<close> whatever renders the line. The line \<open>45.00% done\<close> is such a line,
  with the number 45.
\<close>

theorem progress_marker_consumed:
  "(search_percent (strip line) = Some g \<longrightarrow>
      process_line fails st line =
        Inr (st\<lparr>log_writes := log_writes st @ [strip line @ [CHR 0x0A]],
               completed := float_of_group g\<rparr>) \<and>
      (list_all (\<lambda>l. \<not> line_aborts fails l) pre \<longrightarrow>
         strip line @ [CHR 0x0A] \<in>
           set (log_writes (effects (read_loop fails st (pre @ line # post)))) \<and>
         (list_all (\<lambda>l. search_percent (strip l) = None) post \<longrightarrow>
            completed (effects (read_loop fails st (pre @ line # post))) = float_of_group g)) \<and>
      (\<not> rendered (strip line) st \<longrightarrow>
         \<not> rendered (strip line) (effects (read_loop fails st (pre @ line # post)))) \<and>
      (reaches_loop env cmd target proc \<and> stdout_lines proc = pre @ line # post \<and>
       list_all (\<lambda>l. \<not> line_aborts (markup_fails env) l) pre \<longrightarrow>
         strip line @ [CHR 0x0A] \<in>
           set (log_writes (final (effects (run_scan env cmd target)))) \<and>
         (list_all (\<lambda>l. search_percent (strip l) = None) post \<longrightarrow>
            completed (final (effects (run_scan env cmd target))) =
              (if list_all (\<lambda>l. \<not> line_aborts (markup_fails env) l) post
               then Finite 100 else float_of_group g))) \<and>
      \<not> rendered (strip line) (final (effects (run_scan env cmd target))))
   \<and> search_percent (strip ''45.00% done\<newline>'') = Some ''45.00''
   \<and> float_of_group ''45.00'' = Finite 45"
proof -
  have ex1: "search_percent (strip ''45.00% done\<newline>'') = Some ''45.00''"
    by (simp add: line_eval)
  have ex2: "float_of_group ''45.00'' = Finite 45"
    by (simp add: line_eval float_eval)
  have main:
    "process_line fails st line =
        Inr (st\<lparr>log_writes := log_writes st @ [strip line @ [CHR 0x0A]],
               completed := float_of_group g\<rparr>) \<and>
      (list_all (\<lambda>l. \<not> line_aborts fails l) pre \<longrightarrow>
         strip line @ [CHR 0x0A] \<in>
           set (log_writes (effects (read_loop fails st (pre @ line # post)))) \<and>
         (list_all (\<lambda>l. search_percent (strip l) = None) post \<longrightarrow>
            completed (effects (read_loop fails st (pre @ line # post))) = float_of_group g)) \<and>
      (\<not> rendered (strip line) st \<longrightarrow>
         \<not> rendered (strip line) (effects (read_loop fails st (pre @ line # post)))) \<and>
      (reaches_loop env cmd target proc \<and> stdout_lines proc = pre @ line # post \<and>
       list_all (\<lambda>l. \<not> line_aborts (markup_fails env) l) pre \<longrightarrow>
         strip line @ [CHR 0x0A] \<in>
           set (log_writes (final (effects (run_scan env cmd target)))) \<and>
         (list_all (\<lambda>l. search_percent (strip l) = None) post \<longrightarrow>
            completed (final (effects (run_scan env cmd target))) =
              (if list_all (\<lambda>l. \<not> line_aborts (markup_fails env) l) post
               then Finite 100 else float_of_group g))) \<and>
      \<not> rendered (strip line) (final (effects (run_scan env cmd target)))"
    if m: "search_percent (strip line) = Some g"
  proof -
    have ne: "strip line \<noteq> []"
      using m by (rule search_percent_nonempty)
    have step: "process_line f s line =
        Inr (s\<lparr>log_writes := log_writes s @ [strip line @ [CHR 0x0A]],
              completed := float_of_group g\<rparr>)" for f s
      using m by (rule process_line_marker)
    have quiet: "\<not> line_aborts f line" for f
      using m by (rule marker_never_aborts)
    have logged: "strip line @ [CHR 0x0A] \<in>
        set (log_writes (effects (read_loop f s (pre @ line # post))))"
      if "list_all (\<lambda>l. \<not> line_aborts f l) pre" for f s
      using that ne quiet [of f] by (simp add: read_loop_log consumed_past)
    have value_after: "completed (effects (read_loop f s (pre @ line # post))) = float_of_group g"
      if p: "list_all (\<lambda>l. \<not> line_aborts f l) pre"
        and u: "list_all (\<lambda>l. search_percent (strip l) = None) post" for f s
    proof -
      from p have "raised (read_loop f s pre) = None"
        by (simp add: read_loop_raised)
      then obtain s1 where s1: "read_loop f s pre = Inr s1"
        by (auto simp add: raised_None_iff)
      show ?thesis
        using u by (simp add: read_loop_append s1 step completed_read_loop_unmarked)
    qed
    have silent: "rendered (strip line) (effects (read_loop f s ls)) \<Longrightarrow> rendered (strip line) s"
      for f s ls
      using rendered_read_loop [of "strip line" f s ls] m by simp
    have whole: "\<not> rendered (strip line) (final (effects (run_scan env cmd target)))"
      using rendered_run_scan [of "strip line" env cmd target] m by auto
    have run: "strip line @ [CHR 0x0A] \<in>
           set (log_writes (final (effects (run_scan env cmd target)))) \<and>
         (list_all (\<lambda>l. search_percent (strip l) = None) post \<longrightarrow>
            completed (final (effects (run_scan env cmd target))) =
              (if list_all (\<lambda>l. \<not> line_aborts (markup_fails env) l) post
               then Finite 100 else float_of_group g))"
      if r: "reaches_loop env cmd target proc"
        and s: "stdout_lines proc = pre @ line # post"
        and p: "list_all (\<lambda>l. \<not> line_aborts (markup_fails env) l) pre"
    proof -
      have in_log: "strip line @ [CHR 0x0A] \<in>
           set (log_writes (final (effects (run_scan env cmd target))))"
        using p ne quiet [of "markup_fails env"]
        by (simp add: run_scan_log [OF r] s consumed_past)
      have val: "completed (final (effects (run_scan env cmd target))) =
              (if list_all (\<lambda>l. \<not> line_aborts (markup_fails env) l) post
               then Finite 100 else float_of_group g)"
        if u: "list_all (\<lambda>l. search_percent (strip l) = None) post"
      proof (cases "list_all (\<lambda>l. \<not> line_aborts (markup_fails env) l) post")
        case True
        then have "raised (read_loop (markup_fails env) (loop_start cmd target)
            (stdout_lines proc)) = None"
          using p quiet [of "markup_fails env"] by (simp add: read_loop_raised s)
        then obtain s4 where "read_loop (markup_fails env) (loop_start cmd target)
            (stdout_lines proc) = Inr s4"
          by (auto simp add: raised_None_iff)
        then show ?thesis
          using True by (simp add: run_scan_final [OF r] finish_effects)
      next
        case False
        then have "raised (read_loop (markup_fails env) (loop_start cmd target)
            (stdout_lines proc)) \<noteq> None"
          by (simp add: read_loop_raised s)
        then obtain e s4 where l: "read_loop (markup_fails env) (loop_start cmd target)
            (stdout_lines proc) = Inl (e, s4)"
          by (cases "read_loop (markup_fails env) (loop_start cmd target) (stdout_lines proc)")
            auto
        have "completed (effects (read_loop (markup_fails env) (loop_start cmd target)
            (pre @ line # post))) = float_of_group g"
          using p u by (rule value_after)
        then show ?thesis
          using False l by (simp add: run_scan_final [OF r] s)
      qed
      show ?thesis
        using in_log val by blast
    qed
    show ?thesis
      using step logged value_after silent whole run by blast
  qed
  show ?thesis
    using main ex1 ex2 by blast
qed

theorem progress_marker_consumed_witness:
  "completed (final (effects (run_scan
      \<lparr>markup_fails = (\<lambda>e. e = Dim ''[/x]''), open_fails = (\<lambda>n. False),
       popen = (\<lambda>a. Some \<lparr>stdout_lines =
                  [''Starting Nmap\<newline>'', ''45.00% done\<newline>'', ''[/x]\<newline>'', ''Nmap done\<newline>''],
                returncode = 0\<rparr>),
       stamp = ''17''\<rparr> [''nmap''] ''10.0.0.1''))) = Finite 45 \<and>
   ''45.00% done\<newline>'' \<in> set (log_writes (final (effects (run_scan
      \<lparr>markup_fails = (\<lambda>e. e = Dim ''[/x]''), open_fails = (\<lambda>n. False),
       popen = (\<lambda>a. Some \<lparr>stdout_lines =
                  [''Starting Nmap\<newline>'', ''45.00% done\<newline>'', ''[/x]\<newline>'', ''Nmap done\<newline>''],
                returncode = 0\<rparr>),
       stamp = ''17''\<rparr> [''nmap''] ''10.0.0.1'')))) \<and>
   \<not> rendered ''45.00% done'' (final (effects (run_scan
      \<lparr>markup_fails = (\<lambda>e. e = Dim ''[/x]''), open_fails = (\<lambda>n. False),
       popen = (\<lambda>a. Some \<lparr>stdout_lines =
                  [''Starting Nmap\<newline>'', ''45.00% done\<newline>'', ''[/x]\<newline>'', ''Nmap done\<newline>''],
                returncode = 0\<rparr>),
       stamp = ''17''\<rparr> [''nmap''] ''10.0.0.1''))) \<and>
   completed (effects (read_loop (\<lambda>e. False) (loop_start [''nmap''] ''10.0.0.1'')
      [''Starting Nmap\<newline>'', ''45.00% done\<newline>'', ''80/tcp open  http\<newline>''])) = Finite 45"
  using progress_marker_consumed
    [of "''45.00% done\<newline>''" "''45.00''" "\<lambda>e. False" "loop_start [''nmap''] ''10.0.0.1''"
        "[''Starting Nmap\<newline>'']" "[''80/tcp open  http\<newline>'']"
        "\<lparr>markup_fails = (\<lambda>e. e = Dim ''[/x]''), open_fails = (\<lambda>n. False),
          popen = (\<lambda>a. Some \<lparr>stdout_lines =
                  [''Starting Nmap\<newline>'', ''45.00% done\<newline>'', ''[/x]\<newline>'', ''Nmap done\<newline>''],
                returncode = 0\<rparr>),
          stamp = ''17''\<rparr>"
        "[''nmap'']" "''10.0.0.1''"
        "\<lparr>stdout_lines =
            [''Starting Nmap\<newline>'', ''45.00% done\<newline>'', ''[/x]\<newline>'', ''Nmap done\<newline>''],
          returncode = 0\<rparr>"]
    progress_marker_consumed
    [of "''45.00% done\<newline>''" "''45.00''" "\<lambda>e. False" "loop_start [''nmap''] ''10.0.0.1''"
        "[''Starting Nmap\<newline>'']" "[''[/x]\<newline>'', ''Nmap done\<newline>'']"
        "\<lparr>markup_fails = (\<lambda>e. e = Dim ''[/x]''), open_fails = (\<lambda>n. False),
          popen = (\<lambda>a. Some \<lparr>stdout_lines =
                  [''Starting Nmap\<newline>'', ''45.00% done\<newline>'', ''[/x]\<newline>'', ''Nmap done\<newline>''],
                returncode = 0\<rparr>),
          stamp = ''17''\<rparr>"
        "[''nmap'']" "''10.0.0.1''"
        "\<lparr>stdout_lines =
            [''Starting Nmap\<newline>'', ''45.00% done\<newline>'', ''[/x]\<newline>'', ''Nmap done\<newline>''],
          returncode = 0\<rparr>"]
  by (simp add: line_eval reaches_loop_def line_aborts_def process_line_def console_print_def
      emit_def)

section \<open>Logging\<close>

text \<open>
  Claim C2. In every iteration of the read loop, a line that is empty after trimming
  changes nothing (it is neither displayed nor logged), and a line that is not empty
  after trimming has its trimmed form, with a newline, appended to the log, whatever
  the classification does with it and even when the console raises on it. So when the
  loop ends, normally or by an exception, the log holds exactly the trimmed non-empty
  lines among the lines consumed, in order; the lines consumed are all lines when no
  iteration raises, and otherwise those up to and including the first on which the
  console raises. The log of a call of \<open>run_scan\<close> that gets as far as its loop is this
  log for the output of the child it started, and the log of a call that does not is
  empty.
\<close>

theorem every_nonempty_line_logged:
  "(strip line = [] \<longrightarrow> process_line fails st line = Inr st) \<and>
   (strip line \<noteq> [] \<longrightarrow>
      log_writes (effects (process_line fails st line)) =
        log_writes st @ [strip line @ [CHR 0x0A]]) \<and>
   log_writes (effects (read_loop fails st lines)) =
     log_writes st @
       map (\<lambda>l. strip l @ [CHR 0x0A]) (filter (\<lambda>l. strip l \<noteq> []) (consumed fails lines)) \<and>
   (raised (read_loop fails st lines) = None \<longrightarrow> consumed fails lines = lines) \<and>
   (raised (read_loop fails st lines) \<noteq> None \<longrightarrow>
      (\<exists>pre bad post. lines = pre @ bad # post \<and> consumed fails lines = pre @ [bad] \<and>
         list_all (\<lambda>l. \<not> line_aborts fails l) pre \<and> line_aborts fails bad)) \<and>
   (reaches_loop env cmd target proc \<longrightarrow>
      log_writes (final (effects (run_scan env cmd target))) =
        map (\<lambda>l. strip l @ [CHR 0x0A])
          (filter (\<lambda>l. strip l \<noteq> []) (consumed (markup_fails env) (stdout_lines proc)))) \<and>
   (\<not> (\<exists>p. reaches_loop env cmd target p) \<longrightarrow>
      log_writes (final (effects (run_scan env cmd target))) = [])"
proof -
  have full: "consumed fails lines = lines" if "raised (read_loop fails st lines) = None"
    using that by (simp add: read_loop_raised consumed_all)
  have cut: "\<exists>pre bad post. lines = pre @ bad # post \<and> consumed fails lines = pre @ [bad] \<and>
         list_all (\<lambda>l. \<not> line_aborts fails l) pre \<and> line_aborts fails bad"
    if "raised (read_loop fails st lines) \<noteq> None"
  proof -
    from that have "\<not> list_all (\<lambda>l. \<not> line_aborts fails l) lines"
      by (simp add: read_loop_raised)
    then show ?thesis
      by (rule consumed_cut)
  qed
  show ?thesis
    using full cut run_scan_log [of env cmd target proc] run_scan_early(1) [of env cmd target]
    by (simp add: process_line_empty process_line_log read_loop_log)
qed

theorem every_nonempty_line_logged_witness:
  "process_line (\<lambda>e. False) \<lparr>completed = Finite 0, log_writes = [], printed = []\<rparr> ''  \<newline>'' =
     Inr \<lparr>completed = Finite 0, log_writes = [], printed = []\<rparr> \<and>
   log_writes (effects (process_line (\<lambda>e. True)
       \<lparr>completed = Finite 0, log_writes = [], printed = []\<rparr> '' [/x] \<newline>'')) = [''[/x]\<newline>''] \<and>
   log_writes (final (effects (run_scan
      \<lparr>markup_fails = (\<lambda>e. False), open_fails = (\<lambda>n. False),
       popen = (\<lambda>a. Some \<lparr>stdout_lines =
                  [''About 12.50% done\<newline>'', ''22/tcp open ssh\<newline>'', ''\<newline>'',
                   ''OS details: Linux\<newline>'', ''| ssh-hostkey:\<newline>'', ''Stats: 1 host\<newline>'',
                   ''Nmap done\<newline>''],
                returncode = 0\<rparr>),
       stamp = ''17''\<rparr> [''nmap''] ''10.0.0.1''))) =
     [''About 12.50% done\<newline>'', ''22/tcp open ssh\<newline>'', ''OS details: Linux\<newline>'',
      ''| ssh-hostkey:\<newline>'', ''Stats: 1 host\<newline>'', ''Nmap done\<newline>''] \<and>
   log_writes (final (effects (run_scan
      \<lparr>markup_fails = (\<lambda>e. e = Dim ''[/x]''), open_fails = (\<lambda>n. False),
       popen = (\<lambda>a. Some \<lparr>stdout_lines = [''[/x]\<newline>'', ''Nmap done\<newline>''], returncode = 0\<rparr>),
       stamp = ''17''\<rparr> [''nmap''] ''10.0.0.1''))) = [''[/x]\<newline>''] \<and>
   log_writes (final (effects (run_scan
      \<lparr>markup_fails = (\<lambda>e. False), open_fails = (\<lambda>n. True),
       popen = (\<lambda>a. Some \<lparr>stdout_lines = [''Nmap done\<newline>''], returncode = 0\<rparr>),
       stamp = ''17''\<rparr> [''nmap''] ''10.0.0.1''))) = []"
  using every_nonempty_line_logged
    [of "''  \<newline>''" "\<lambda>e. False" "\<lparr>completed = Finite 0, log_writes = [], printed = []\<rparr>" "[]"
        "\<lparr>markup_fails = (\<lambda>e. False), open_fails = (\<lambda>n. False),
          popen = (\<lambda>a. Some \<lparr>stdout_lines =
                  [''About 12.50% done\<newline>'', ''22/tcp open ssh\<newline>'', ''\<newline>'',
                   ''OS details: Linux\<newline>'', ''| ssh-hostkey:\<newline>'', ''Stats: 1 host\<newline>'',
                   ''Nmap done\<newline>''],
                returncode = 0\<rparr>),
          stamp = ''17''\<rparr>"
        "[''nmap'']" "''10.0.0.1''"
        "\<lparr>stdout_lines =
            [''About 12.50% done\<newline>'', ''22/tcp open ssh\<newline>'', ''\<newline>'',
             ''OS details: Linux\<newline>'', ''| ssh-hostkey:\<newline>'', ''Stats: 1 host\<newline>'',
             ''Nmap done\<newline>''],
          returncode = 0\<rparr>"]
    every_nonempty_line_logged
    [of "'' [/x] \<newline>''" "\<lambda>e. True" "\<lparr>completed = Finite 0, log_writes = [], printed = []\<rparr>"
        "[''[/x]\<newline>'', ''Nmap done\<newline>'']"
        "\<lparr>markup_fails = (\<lambda>e. e = Dim ''[/x]''), open_fails = (\<lambda>n. False),
          popen = (\<lambda>a. Some \<lparr>stdout_lines = [''[/x]\<newline>'', ''Nmap done\<newline>''],
                            returncode = 0\<rparr>),
          stamp = ''17''\<rparr>"
        "[''nmap'']" "''10.0.0.1''"
        "\<lparr>stdout_lines = [''[/x]\<newline>'', ''Nmap done\<newline>''], returncode = 0\<rparr>"]
    every_nonempty_line_logged
    [of "[]" "\<lambda>e. False" "\<lparr>completed = Finite 0, log_writes = [], printed = []\<rparr>" "[]"
        "\<lparr>markup_fails = (\<lambda>e. False), open_fails = (\<lambda>n. True),
          popen = (\<lambda>a. Some \<lparr>stdout_lines = [''Nmap done\<newline>''], returncode = 0\<rparr>),
          stamp = ''17''\<rparr>"
        "[''nmap'']" "''10.0.0.1''"
        "\<lparr>stdout_lines = [''Nmap done\<newline>''], returncode = 0\<rparr>"]
  by (simp add: line_eval reaches_loop_def line_aborts_def process_line_def console_print_def
      emit_def)

section \<open>Noise lines\<close>

text \<open>
  Claim C7. A non-empty line that holds \<open>Stats:\<close> and that no earlier rule matches (no
  progress marker, no port prefix, no \<open>OS details:\<close> or \<open>Service Info:\<close>, no leading
  \<open>|\<close>) is written, trimmed, to the log and is not printed: the iteration changes the
  log only and cannot raise, and no console event of the loop or of the whole call of
  \<open>run_scan\<close> carries the line. When the call gets as far as its loop and the loop reads
  the child's output as far as the line, the line is in the log of the call. The line
  \<open>Stats: 10 hosts\<close> is such a line.
\<close>

theorem stats_line_logged_not_displayed:
  "(search_percent (strip line) = None \<and> \<not> match_port (strip line) \<and>
    \<not> contains ''OS details:'' (strip line) \<and> \<not> contains ''Service Info:'' (strip line) \<and>
    \<not> startswith ''|'' (strip line) \<and> contains ''Stats:'' (strip line) \<longrightarrow>
      process_line fails st line =
        Inr (st\<lparr>log_writes := log_writes st @ [strip line @ [CHR 0x0A]]\<rparr>) \<and>
      (\<not> rendered (strip line) st \<longrightarrow>
         \<not> rendered (strip line) (effects (read_loop fails st lines))) \<and>
      \<not> rendered (strip line) (final (effects (run_scan env cmd target))) \<and>
      (reaches_loop env cmd target proc \<and> stdout_lines proc = pre @ line # post \<and>
       list_all (\<lambda>l. \<not> line_aborts (markup_fails env) l) pre \<longrightarrow>
         strip line @ [CHR 0x0A] \<in>
           set (log_writes (final (effects (run_scan env cmd target))))))
   \<and> process_line fails st ''Stats: 10 hosts\<newline>'' =
       Inr (st\<lparr>log_writes := log_writes st @ [''Stats: 10 hosts\<newline>'']\<rparr>)"
proof -
  have main:
    "process_line fails st line =
        Inr (st\<lparr>log_writes := log_writes st @ [strip line @ [CHR 0x0A]]\<rparr>) \<and>
     (\<not> rendered (strip line) st \<longrightarrow>
         \<not> rendered (strip line) (effects (read_loop fails st lines))) \<and>
     \<not> rendered (strip line) (final (effects (run_scan env cmd target))) \<and>
     (reaches_loop env cmd target proc \<and> stdout_lines proc = pre @ line # post \<and>
       list_all (\<lambda>l. \<not> line_aborts (markup_fails env) l) pre \<longrightarrow>
         strip line @ [CHR 0x0A] \<in>
           set (log_writes (final (effects (run_scan env cmd target)))))"
    if h: "search_percent (strip line) = None" "\<not> match_port (strip line)"
      "\<not> contains ''OS details:'' (strip line)" "\<not> contains ''Service Info:'' (strip line)"
      "\<not> startswith ''|'' (strip line)" "contains ''Stats:'' (strip line)"
  proof -
    have ne: "strip line \<noteq> []"
      using h(6) by (cases "strip line") simp_all
    have step: "process_line f s line =
        Inr (s\<lparr>log_writes := log_writes s @ [strip line @ [CHR 0x0A]]\<rparr>)" for f s
      using h ne by (simp add: process_line_def Let_def)
    have quiet: "\<not> line_aborts f line" for f
      by (simp add: line_aborts_def step)
    have silent: "rendered (strip line) (effects (read_loop f s ls)) \<Longrightarrow> rendered (strip line) s"
      for f s ls
      using rendered_read_loop [of "strip line" f s ls] h by blast
    have whole: "\<not> rendered (strip line) (final (effects (run_scan env cmd target)))"
      using rendered_run_scan [of "strip line" env cmd target] h by blast
    have run: "strip line @ [CHR 0x0A] \<in>
           set (log_writes (final (effects (run_scan env cmd target))))"
      if r: "reaches_loop env cmd target proc"
        and s: "stdout_lines proc = pre @ line # post"
        and p: "list_all (\<lambda>l. \<not> line_aborts (markup_fails env) l) pre"
      using p ne quiet [of "markup_fails env"]
      by (simp add: run_scan_log [OF r] s consumed_past)
    show ?thesis
      using step silent whole run by blast
  qed
  have ex: "process_line fails st ''Stats: 10 hosts\<newline>'' =
      Inr (st\<lparr>log_writes := log_writes st @ [''Stats: 10 hosts\<newline>'']\<rparr>)"
    by (simp add: process_line_def Let_def line_eval)
  show ?thesis
    using main ex by blast
qed

theorem stats_line_logged_not_displayed_witness:
  "process_line (\<lambda>e. True) \<lparr>completed = Finite 7, log_writes = [], printed = [LiveResultsHeader]\<rparr>
     ''Stats: 0:00:03 elapsed; 0 hosts completed (1 up)\<newline>'' =
     Inr \<lparr>completed = Finite 7,
          log_writes = [''Stats: 0:00:03 elapsed; 0 hosts completed (1 up)\<newline>''],
          printed = [LiveResultsHeader]\<rparr> \<and>
   \<not> rendered ''Stats: 0:00:03 elapsed; 0 hosts completed (1 up)''
     (effects (read_loop (\<lambda>e. True)
        \<lparr>completed = Finite 7, log_writes = [], printed = [LiveResultsHeader]\<rparr>
        [''Stats: 0:00:03 elapsed; 0 hosts completed (1 up)\<newline>'', ''Nmap done\<newline>''])) \<and>
   ''Stats: 0:00:03 elapsed; 0 hosts completed (1 up)\<newline>'' \<in>
     set (log_writes (final (effects (run_scan
      \<lparr>markup_fails = (\<lambda>e. False), open_fails = (\<lambda>n. False),
       popen = (\<lambda>a. Some \<lparr>stdout_lines =
                  [''Starting Nmap\<newline>'',
                   ''Stats: 0:00:03 elapsed; 0 hosts completed (1 up)\<newline>'', ''Nmap done\<newline>''],
                returncode = 0\<rparr>),
       stamp = ''17''\<rparr> [''nmap''] ''10.0.0.1''))))"
  using stats_line_logged_not_displayed
    [of "''Stats: 0:00:03 elapsed; 0 hosts completed (1 up)\<newline>''" "\<lambda>e. True"
        "\<lparr>completed = Finite 7, log_writes = [], printed = [LiveResultsHeader]\<rparr>"
        "[''Stats: 0:00:03 elapsed; 0 hosts completed (1 up)\<newline>'', ''Nmap done\<newline>'']"
        "\<lparr>markup_fails = (\<lambda>e. False), open_fails = (\<lambda>n. False),
          popen = (\<lambda>a. Some \<lparr>stdout_lines =
                  [''Starting Nmap\<newline>'',
                   ''Stats: 0:00:03 elapsed; 0 hosts completed (1 up)\<newline>'', ''Nmap done\<newline>''],
                returncode = 0\<rparr>),
          stamp = ''17''\<rparr>"
        "[''nmap'']" "''10.0.0.1''"
        "\<lparr>stdout_lines =
            [''Starting Nmap\<newline>'',
             ''Stats: 0:00:03 elapsed; 0 hosts completed (1 up)\<newline>'', ''Nmap done\<newline>''],
          returncode = 0\<rparr>"
        "[''Starting Nmap\<newline>'']" "[''Nmap done\<newline>'']"]
  by (simp add: line_eval rendered_def reaches_loop_def line_aborts_def process_line_def
      console_print_def emit_def)

section \<open>The progress value\<close>





section \<open>The outcome of a scan\<close>

lemma printed_process_line:
  "e \<in> set (printed (effects (process_line fails st line))) \<Longrightarrow>
   e \<in> set (printed st) \<or>
   e \<in> {PortFound (strip line), Detail (strip line), ScriptResult (strip line), Dim (strip line)}"
  by (auto simp add: process_line_def Let_def console_print_def emit_def
      split: option.splits if_splits)

lemma printed_read_loop:
  "e \<in> set (printed (effects (read_loop fails st lines))) \<Longrightarrow>
   e \<in> set (printed st) \<or> (\<exists>l. e \<in> {PortFound l, Detail l, ScriptResult l, Dim l})"
proof (induction lines arbitrary: st)
  case Nil
  then show ?case by simp
next
  case (Cons x xs)
  show ?case
  proof (cases "process_line fails st x")
    case (Inl y)
    with Cons.prems have "e \<in> set (printed (effects (process_line fails st x)))"
      by (cases y) simp
    then show ?thesis
      using printed_process_line [of e fails st x] by blast
  next
    case (Inr st')
    with Cons.prems have "e \<in> set (printed (effects (read_loop fails st' xs)))"
      by simp
    from Cons.IH [OF this] show ?thesis
      using printed_process_line [of e fails st x] Inr by auto
  qed
qed

lemma loop_reports_no_outcome:
  "ScanFailed \<notin> set (printed (effects (read_loop fails (loop_start c t) lines))) \<and>
   ScanComplete \<notin> set (printed (effects (read_loop fails (loop_start c t) lines)))"
  using printed_read_loop [of ScanFailed fails "loop_start c t" lines]
    printed_read_loop [of ScanComplete fails "loop_start c t" lines]
  by (auto simp add: loop_start_def)

lemma read_loop_Inr:
  "list_all (\<lambda>l. \<not> line_aborts fails l) lines \<Longrightarrow> \<exists>st'. read_loop fails st lines = Inr st'"
  using read_loop_raised [of fails st lines] by (simp add: raised_None_iff)

lemma read_loop_Inl:
  "\<not> list_all (\<lambda>l. \<not> line_aborts fails l) lines \<Longrightarrow>
   \<exists>st'. read_loop fails st lines = Inl (MarkupError, st')"
proof (induction lines arbitrary: st)
  case Nil
  then show ?case by simp
next
  case (Cons x xs)
  show ?case
  proof (cases "process_line fails st x")
    case (Inl y)
    then have "\<exists>st'. process_line fails st x = Inl (MarkupError, st')"
      by (auto simp add: process_line_def Let_def console_print_def
          split: option.splits if_splits)
    then show ?thesis by auto
  next
    case (Inr st')
    then have "\<not> line_aborts fails x" by (rule process_line_Inr)
    with Cons.prems have "\<not> list_all (\<lambda>l. \<not> line_aborts fails l) xs" by simp
    from Cons.IH [OF this, of st'] show ?thesis
      using Inr by simp
  qed
qed

text \<open>The console output of a call that reads the child's output to its end.\<close>

lemma printed_run_scan:
  assumes "reads_to_end env cmd target proc"
  shows "printed (final (effects (run_scan env cmd target))) =
     printed (effects (read_loop (markup_fails env) (loop_start cmd target) (stdout_lines proc))) @
     (if returncode proc \<noteq> 0 then [ScanFailed]
      else if markup_fails env (ReportSaved (log_name env target)) then [ScanComplete]
      else [ScanComplete, ReportSaved (log_name env target)])"
proof -
  from assms have r: "reaches_loop env cmd target proc"
    and a: "list_all (\<lambda>l. \<not> line_aborts (markup_fails env) l) (stdout_lines proc)"
    by (simp_all add: reads_to_end_def)
  from read_loop_Inr [OF a] obtain s4 where
    "read_loop (markup_fails env) (loop_start cmd target) (stdout_lines proc) = Inr s4" ..
  then show ?thesis
    by (simp add: run_scan_final [OF r] finish_effects)
qed

lemma run_scan_failed_returns:
  assumes "reads_to_end env cmd target proc" and "returncode proc \<noteq> 0"
  shows "\<exists>r. run_scan env cmd target = Inr r \<and> last (printed (final r)) = ScanFailed"
proof -
  from assms have r: "reaches_loop env cmd target proc"
    and a: "list_all (\<lambda>l. \<not> line_aborts (markup_fails env) l) (stdout_lines proc)"
    by (simp_all add: reads_to_end_def)
  from read_loop_Inr [OF a] obtain s4 where
    "read_loop (markup_fails env) (loop_start cmd target) (stdout_lines proc) = Inr s4" ..
  then show ?thesis
    using assms(2) by (simp add: run_scan_loop [OF r] finish_def emit_def)
qed

text \<open>An outcome line is printed only by a call that read the child's output to its
  end.\<close>

lemma outcome_only_at_end:
  assumes "ScanComplete \<in> set (printed (final (effects (run_scan env cmd target)))) \<or>
           ScanFailed \<in> set (printed (final (effects (run_scan env cmd target))))"
  shows "\<exists>proc. reads_to_end env cmd target proc"
proof (cases "\<exists>proc. reaches_loop env cmd target proc")
  case False
  then show ?thesis
    using assms
    by (auto simp add: reaches_loop_def run_scan_def Let_def console_print_def emit_def
        split: option.splits if_splits)
next
  case True
  then obtain proc where r: "reaches_loop env cmd target proc" ..
  show ?thesis
  proof (cases "list_all (\<lambda>l. \<not> line_aborts (markup_fails env) l) (stdout_lines proc)")
    case True
    with r have "reads_to_end env cmd target proc"
      by (simp add: reads_to_end_def)
    then show ?thesis ..
  next
    case False
    from read_loop_Inl [OF False] obtain s4 where
      "read_loop (markup_fails env) (loop_start cmd target) (stdout_lines proc) =
         Inl (MarkupError, s4)" ..
    then have "final (effects (run_scan env cmd target)) =
        effects (read_loop (markup_fails env) (loop_start cmd target) (stdout_lines proc))"
      by (simp add: run_scan_final [OF r])
    then show ?thesis
      using assms loop_reports_no_outcome [of "markup_fails env" cmd target "stdout_lines proc"]
      by simp
  qed
qed

lemma scans_keys:
  "map_of SCANS k = Some p \<Longrightarrow> k \<in> {''1'', ''2'', ''3'', ''4'', ''5'', ''6''}"
  by (simp add: SCANS_def split: if_splits)

text \<open>The path of \<open>menu\<close> that runs a scan, when neither file operation and neither
  prompt raises.\<close>

lemma ask_target_Inr:
  "\<not> isl (ask_target fails last_ip w) \<Longrightarrow>
   \<exists>e. \<forall>w'. ask_target fails last_ip w' = Inr (say [e] w')"
  by (auto simp add: ask_target_def split: option.splits if_splits)

lemma menu_scan:
  assumes key: "map_of SCANS (lower (strip (choice_answer i))) = Some p"
    and loaded: "load_last_ip (last_target_file w) = Inr last_ip"
    and asked: "\<not> isl (ask_target (markup_fails (outside i)) last_ip w)"
    and valid: "validate_ip (choose_target last_ip (strip (target_answer i)))"
    and saved: "save_last_ip (choose_target last_ip (strip (target_answer i)))
                  (last_target_file w) = Inr f"
    and found: "nmap_found i"
  shows "\<exists>w3. runs w3 = runs w \<and> last_target_file w3 = f \<and>
    menu i w =
      (case run_scan (outside i) (command p)
              (choose_target last_ip (strip (target_answer i))) of
         Inl (e, r) \<Rightarrow> Inl e
       | Inr r \<Rightarrow> Inr (say (printed (final r)) (w3\<lparr>runs := runs w3 @ [r]\<rparr>), Returned))"
proof -
  have k: "lower (strip (choice_answer i)) \<noteq> ''x''" "lower (strip (choice_answer i)) \<noteq> ''e''"
    using scans_keys [OF key] by auto
  from ask_target_Inr [OF asked] obtain e where
    a: "\<And>w'. ask_target (markup_fails (outside i)) last_ip w' = Inr (say [e] w')"
    by blast
  let ?w3 = "(say [e] (say [AskChoice]
      (say (map (\<lambda>(key, data). MenuEntry key (name data)) SCANS @ [MenuExplain, MenuExit])
         (print_banner (say [ScreenCleared] w)))))\<lparr>last_target_file := f\<rparr>"
  have "runs ?w3 = runs w \<and> last_target_file ?w3 = f \<and>
    menu i w =
      (case run_scan (outside i) (command p)
              (choose_target last_ip (strip (target_answer i))) of
         Inl (e, r) \<Rightarrow> Inl e
       | Inr r \<Rightarrow> Inr (say (printed (final r)) (?w3\<lparr>runs := runs ?w3 @ [r]\<rparr>), Returned))"
    using k key loaded valid saved found
    by (simp add: menu_def Let_def a say_def print_banner_def check_nmap_def
        split: sum.splits prod.splits)
  then show ?thesis ..
qed

lemmas ip_eval =
  validate_ip_def ip_address_def ip_network_def IPv4Address_def IPv4Network_def
  split_addr_prefix_def v4_int_from_string_def parse_octet_def v4_make_netmask_def
  prefix_from_prefix_string_def ip_int_from_prefix_def ALL_ONES_def
  isdigit_def digits_val_def digit_val_def

lemmas menu_eval =
  lower_def lower_char_def uppercase_def lowercase_def strip_def isspace_def
  SCANS_def choose_target_def load_last_ip_def save_last_ip_def ask_target_def

lemmas run_eval =
  reads_to_end_def reaches_loop_def line_aborts_def process_line_def console_print_def
  emit_def percent_here_def startswith_def match_port_def

text \<open>
  Claim C5. A call of \<open>run_scan\<close> that reads the child's output to its end and waits
  for the child prints the success line exactly when the exit status is zero and the
  failure line, which carries the hint about elevated privileges, exactly when it is
  not; no other call prints either line. With a status that is not zero the call
  returns, the failure line being the last thing it printed, so the failed scan does not
  end the program: \<open>menu\<close> returns with the failure line as the last thing on the console,
  and the loop goes on with the next interaction. What does end the program is an
  exception: one that \<open>run_scan\<close> raises leaves \<open>menu\<close> and the loop.
\<close>

theorem scan_outcome_reported:
  "(reads_to_end env cmd target proc \<longrightarrow>
      (ScanComplete \<in> set (printed (final (effects (run_scan env cmd target)))) \<longleftrightarrow>
         returncode proc = 0) \<and>
      (ScanFailed \<in> set (printed (final (effects (run_scan env cmd target)))) \<longleftrightarrow>
         returncode proc \<noteq> 0) \<and>
      (returncode proc \<noteq> 0 \<longrightarrow>
         (\<exists>r. run_scan env cmd target = Inr r \<and> last (printed (final r)) = ScanFailed))) \<and>
   (ScanComplete \<in> set (printed (final (effects (run_scan env cmd target)))) \<or>
    ScanFailed \<in> set (printed (final (effects (run_scan env cmd target)))) \<longrightarrow>
      (\<exists>child. reads_to_end env cmd target child)) \<and>
   (map_of SCANS (lower (strip (choice_answer i))) = Some p \<and>
    load_last_ip (last_target_file w) = Inr last_ip \<and>
    \<not> isl (ask_target (markup_fails (outside i)) last_ip w) \<and>
    validate_ip (choose_target last_ip (strip (target_answer i))) \<and>
    save_last_ip (choose_target last_ip (strip (target_answer i))) (last_target_file w) = Inr f \<and>
    nmap_found i \<longrightarrow>
      (reads_to_end (outside i) (command p)
         (choose_target last_ip (strip (target_answer i))) failed \<and>
       returncode failed \<noteq> 0 \<longrightarrow>
         (\<exists>w'. menu i w = Inr (w', Returned) \<and> last (console w') = ScanFailed \<and>
               main_loop w (i # rest) = main_loop w' rest)) \<and>
      (raised (run_scan (outside i) (command p)
                 (choose_target last_ip (strip (target_answer i)))) = Some e \<longrightarrow>
         menu i w = Inl e \<and> main_loop w (i # rest) = Inl e))"
proof -
  have run: "(ScanComplete \<in> set (printed (final (effects (run_scan env cmd target)))) \<longleftrightarrow>
         returncode proc = 0) \<and>
      (ScanFailed \<in> set (printed (final (effects (run_scan env cmd target)))) \<longleftrightarrow>
         returncode proc \<noteq> 0) \<and>
      (returncode proc \<noteq> 0 \<longrightarrow>
         (\<exists>r. run_scan env cmd target = Inr r \<and> last (printed (final r)) = ScanFailed))"
    if e: "reads_to_end env cmd target proc"
    using loop_reports_no_outcome [of "markup_fails env" cmd target "stdout_lines proc"]
      run_scan_failed_returns [OF e]
    by (simp add: printed_run_scan [OF e])
  have only: "\<exists>child. reads_to_end env cmd target child"
    if "ScanComplete \<in> set (printed (final (effects (run_scan env cmd target)))) \<or>
        ScanFailed \<in> set (printed (final (effects (run_scan env cmd target))))"
    using that by (rule outcome_only_at_end)
  have through_menu:
    "(reads_to_end (outside i) (command p)
         (choose_target last_ip (strip (target_answer i))) failed \<and>
       returncode failed \<noteq> 0 \<longrightarrow>
         (\<exists>w'. menu i w = Inr (w', Returned) \<and> last (console w') = ScanFailed \<and>
               main_loop w (i # rest) = main_loop w' rest)) \<and>
      (raised (run_scan (outside i) (command p)
                 (choose_target last_ip (strip (target_answer i)))) = Some e \<longrightarrow>
         menu i w = Inl e \<and> main_loop w (i # rest) = Inl e)"
    if h: "map_of SCANS (lower (strip (choice_answer i))) = Some p"
      "load_last_ip (last_target_file w) = Inr last_ip"
      "\<not> isl (ask_target (markup_fails (outside i)) last_ip w)"
      "validate_ip (choose_target last_ip (strip (target_answer i)))"
      "save_last_ip (choose_target last_ip (strip (target_answer i))) (last_target_file w) = Inr f"
      "nmap_found i"
  proof -
    from menu_scan [OF h] obtain w3 where
      m: "menu i w =
        (case run_scan (outside i) (command p)
                (choose_target last_ip (strip (target_answer i))) of
           Inl (e, r) \<Rightarrow> Inl e
         | Inr r \<Rightarrow> Inr (say (printed (final r)) (w3\<lparr>runs := runs w3 @ [r]\<rparr>), Returned))"
      by blast
    have resume: "\<exists>w'. menu i w = Inr (w', Returned) \<and> last (console w') = ScanFailed \<and>
               main_loop w (i # rest) = main_loop w' rest"
      if f: "reads_to_end (outside i) (command p)
         (choose_target last_ip (strip (target_answer i))) failed" "returncode failed \<noteq> 0"
    proof -
      from run_scan_failed_returns [OF f] obtain r where
        r: "run_scan (outside i) (command p)
              (choose_target last_ip (strip (target_answer i))) = Inr r"
          "last (printed (final r)) = ScanFailed"
        by blast
      have ne: "printed (final r) \<noteq> []"
        using printed_run_scan [OF f(1)] r(1) f(2) by simp
      show ?thesis
        using r ne by (simp add: m say_def)
    qed
    have escape: "menu i w = Inl e \<and> main_loop w (i # rest) = Inl e"
      if "raised (run_scan (outside i) (command p)
                 (choose_target last_ip (strip (target_answer i)))) = Some e"
      using that by (auto simp add: m raised_def split: sum.splits prod.splits)
    show ?thesis
      using resume escape by blast
  qed
  show ?thesis
    using run only through_menu by blast
qed

theorem scan_outcome_reported_witness:
  "\<exists>w'. menu \<lparr>choice_answer = '' 6 '', target_answer = ''10.0.0.1'', nmap_found = True,
               outside = \<lparr>markup_fails = (\<lambda>e. False), open_fails = (\<lambda>n. False),
                 popen = (\<lambda>a. Some \<lparr>stdout_lines =
                     [''You requested a scan type which requires root privileges.\<newline>'',
                      ''QUITTING!\<newline>''],
                   returncode = 1\<rparr>),
                 stamp = ''1700000000''\<rparr>\<rparr>
             \<lparr>console = [], last_target_file = Missing, runs = []\<rparr> = Inr (w', Returned) \<and>
        last (console w') = ScanFailed \<and>
        main_loop \<lparr>console = [], last_target_file = Missing, runs = []\<rparr>
          [\<lparr>choice_answer = '' 6 '', target_answer = ''10.0.0.1'', nmap_found = True,
            outside = \<lparr>markup_fails = (\<lambda>e. False), open_fails = (\<lambda>n. False),
              popen = (\<lambda>a. Some \<lparr>stdout_lines =
                  [''You requested a scan type which requires root privileges.\<newline>'',
                   ''QUITTING!\<newline>''],
                returncode = 1\<rparr>),
              stamp = ''1700000000''\<rparr>\<rparr>] = Inr (w', Returned)"
  using scan_outcome_reported
    [of "\<lparr>markup_fails = (\<lambda>e. False), open_fails = (\<lambda>n. False),
          popen = (\<lambda>a. Some \<lparr>stdout_lines =
              [''You requested a scan type which requires root privileges.\<newline>'',
               ''QUITTING!\<newline>''],
            returncode = 1\<rparr>),
          stamp = ''1700000000''\<rparr>"
        "[''nmap'', ''-sS'', ''-Pn'']" "''10.0.0.1''"
        "\<lparr>stdout_lines =
            [''You requested a scan type which requires root privileges.\<newline>'',
             ''QUITTING!\<newline>''],
          returncode = 1\<rparr>"
        "\<lparr>choice_answer = '' 6 '', target_answer = ''10.0.0.1'', nmap_found = True,
          outside = \<lparr>markup_fails = (\<lambda>e. False), open_fails = (\<lambda>n. False),
            popen = (\<lambda>a. Some \<lparr>stdout_lines =
                [''You requested a scan type which requires root privileges.\<newline>'',
                 ''QUITTING!\<newline>''],
              returncode = 1\<rparr>),
            stamp = ''1700000000''\<rparr>\<rparr>"
        "\<lparr>name = ''Stealth Mode (SYN Scan)'', command = [''nmap'', ''-sS'', ''-Pn''],
          description = ''Scans without completing TCP connections. (Usually requires sudo/root)''\<rparr>"
        "\<lparr>console = [], last_target_file = Missing, runs = []\<rparr>"
        None "Present True True ''10.0.0.1''"
        "\<lparr>stdout_lines =
            [''You requested a scan type which requires root privileges.\<newline>'',
             ''QUITTING!\<newline>''],
          returncode = 1\<rparr>"
        "[]" MarkupError]
  by (simp add: menu_eval ip_eval run_eval)

section \<open>The argument list of the child\<close>

text \<open>
  Claim C8. The argument list that \<open>run_scan\<close> builds is the profile's base argument
  sequence, then \<open>--stats-every\<close> and \<open>3s\<close>, then the target as last element. It is the
  list the child is started with: a call records an argument list exactly when it got
  as far as \<open>Popen\<close> and \<open>Popen\<close> started a child for this list; when \<open>Popen\<close> starts no
  child for this list the call raises \<open>OSError\<close> with nothing read or logged; the log of
  a call that gets as far as its loop is made of the output of the child started for
  this list, and the outcome line of a call that reads to the end is decided by the exit
  status of that child; and what \<open>Popen\<close> would do for any other list is irrelevant to
  the call. This is so for every profile of the catalogue and every validated target
  that \<open>menu\<close> hands over: a scan that \<open>menu\<close> runs without an exception was run with the
  profile's arguments, the two fixed elements and the target.
\<close>

theorem child_argument_list:
  "full_command cmd target = cmd @ [''--stats-every'', ''3s''] @ [target] \<and>
   last (full_command cmd target) = target \<and>
   argv (effects (run_scan env cmd target)) =
     (if \<not> markup_fails env (Targeting target) \<and>
         \<not> markup_fails env (Command (join_space (cmd @ [''--stats-every'', ''3s''] @ [target]))) \<and>
         popen env (cmd @ [''--stats-every'', ''3s''] @ [target]) \<noteq> None
      then Some (cmd @ [''--stats-every'', ''3s''] @ [target]) else None) \<and>
   (\<not> markup_fails env (Targeting target) \<and>
    \<not> markup_fails env (Command (join_space (cmd @ [''--stats-every'', ''3s''] @ [target]))) \<and>
    popen env (cmd @ [''--stats-every'', ''3s''] @ [target]) = None \<longrightarrow>
      raised (run_scan env cmd target) = Some OSError \<and>
      log_writes (final (effects (run_scan env cmd target))) = []) \<and>
   (\<not> markup_fails env (Targeting target) \<and>
    \<not> markup_fails env (Command (join_space (cmd @ [''--stats-every'', ''3s''] @ [target]))) \<and>
    popen env (cmd @ [''--stats-every'', ''3s''] @ [target]) = Some proc \<and>
    \<not> open_fails env (log_name env target) \<longrightarrow>
      log_writes (final (effects (run_scan env cmd target))) =
        map (\<lambda>l. strip l @ [CHR 0x0A])
          (filter (\<lambda>l. strip l \<noteq> []) (consumed (markup_fails env) (stdout_lines proc))) \<and>
      (list_all (\<lambda>l. \<not> line_aborts (markup_fails env) l) (stdout_lines proc) \<longrightarrow>
         (ScanFailed \<in> set (printed (final (effects (run_scan env cmd target)))) \<longleftrightarrow>
            returncode proc \<noteq> 0))) \<and>
   (f (cmd @ [''--stats-every'', ''3s''] @ [target]) =
      popen env (cmd @ [''--stats-every'', ''3s''] @ [target]) \<longrightarrow>
    run_scan (env\<lparr>popen := f\<rparr>) cmd target = run_scan env cmd target) \<and>
   (map_of SCANS (lower (strip (choice_answer i))) = Some p \<and>
    load_last_ip (last_target_file w) = Inr last_ip \<and>
    \<not> isl (ask_target (markup_fails (outside i)) last_ip w) \<and>
    validate_ip (choose_target last_ip (strip (target_answer i))) \<and>
    save_last_ip (choose_target last_ip (strip (target_answer i))) (last_target_file w) = Inr sv \<and>
    nmap_found i \<and>
    raised (run_scan (outside i) (command p)
              (choose_target last_ip (strip (target_answer i)))) = None \<longrightarrow>
      (\<exists>w'. menu i w = Inr (w', Returned) \<and>
            map argv (runs w') =
              map argv (runs w) @
                [Some (command p @ [''--stats-every'', ''3s''] @
                   [choose_target last_ip (strip (target_answer i))])] \<and>
            popen (outside i) (command p @ [''--stats-every'', ''3s''] @
                   [choose_target last_ip (strip (target_answer i))]) \<noteq> None))"
proof -
  have full: "full_command cmd target = cmd @ [''--stats-every'', ''3s''] @ [target]"
    "last (full_command cmd target) = target"
    by (simp_all add: full_command_def)
  have started: "argv (effects (run_scan e c t)) =
     (if \<not> markup_fails e (Targeting t) \<and>
         \<not> markup_fails e (Command (join_space (c @ [''--stats-every'', ''3s''] @ [t]))) \<and>
         popen e (c @ [''--stats-every'', ''3s''] @ [t]) \<noteq> None
      then Some (c @ [''--stats-every'', ''3s''] @ [t]) else None)" for e c t
    by (auto simp add: run_scan_def Let_def console_print_def full_command_def
        split: option.splits sum.splits prod.splits)
  have none: "raised (run_scan env cmd target) = Some OSError \<and>
      log_writes (final (effects (run_scan env cmd target))) = []"
    if "\<not> markup_fails env (Targeting target)"
      "\<not> markup_fails env (Command (join_space (cmd @ [''--stats-every'', ''3s''] @ [target])))"
      "popen env (cmd @ [''--stats-every'', ''3s''] @ [target]) = None"
    using that
    by (simp add: run_scan_def Let_def console_print_def emit_def full_command_def)
  have some: "log_writes (final (effects (run_scan env cmd target))) =
        map (\<lambda>l. strip l @ [CHR 0x0A])
          (filter (\<lambda>l. strip l \<noteq> []) (consumed (markup_fails env) (stdout_lines proc))) \<and>
      (list_all (\<lambda>l. \<not> line_aborts (markup_fails env) l) (stdout_lines proc) \<longrightarrow>
         (ScanFailed \<in> set (printed (final (effects (run_scan env cmd target)))) \<longleftrightarrow>
            returncode proc \<noteq> 0))"
    if "\<not> markup_fails env (Targeting target)"
      "\<not> markup_fails env (Command (join_space (cmd @ [''--stats-every'', ''3s''] @ [target])))"
      "popen env (cmd @ [''--stats-every'', ''3s''] @ [target]) = Some proc"
      "\<not> open_fails env (log_name env target)"
  proof -
    from that have r: "reaches_loop env cmd target proc"
      by (simp add: reaches_loop_def full_command_def)
    have out: "ScanFailed \<in> set (printed (final (effects (run_scan env cmd target)))) \<longleftrightarrow>
        returncode proc \<noteq> 0"
      if a: "list_all (\<lambda>l. \<not> line_aborts (markup_fails env) l) (stdout_lines proc)"
    proof -
      from r a have e: "reads_to_end env cmd target proc"
        by (simp add: reads_to_end_def)
      show ?thesis
        using loop_reports_no_outcome [of "markup_fails env" cmd target "stdout_lines proc"]
        by (simp add: printed_run_scan [OF e])
    qed
    show ?thesis
      using out by (simp add: run_scan_log [OF r])
  qed
  have same: "run_scan (env\<lparr>popen := f\<rparr>) cmd target = run_scan env cmd target"
    if "f (cmd @ [''--stats-every'', ''3s''] @ [target]) =
        popen env (cmd @ [''--stats-every'', ''3s''] @ [target])"
    using that
    by (simp add: run_scan_def Let_def full_command_def log_name_def
        split: sum.splits prod.splits option.splits)
  have through_menu: "\<exists>w'. menu i w = Inr (w', Returned) \<and>
      map argv (runs w') =
        map argv (runs w) @
          [Some (command p @ [''--stats-every'', ''3s''] @
             [choose_target last_ip (strip (target_answer i))])] \<and>
      popen (outside i) (command p @ [''--stats-every'', ''3s''] @
             [choose_target last_ip (strip (target_answer i))]) \<noteq> None"
    if h: "map_of SCANS (lower (strip (choice_answer i))) = Some p"
      "load_last_ip (last_target_file w) = Inr last_ip"
      "\<not> isl (ask_target (markup_fails (outside i)) last_ip w)"
      "validate_ip (choose_target last_ip (strip (target_answer i)))"
      "save_last_ip (choose_target last_ip (strip (target_answer i))) (last_target_file w) = Inr sv"
      "nmap_found i"
      and ok: "raised (run_scan (outside i) (command p)
              (choose_target last_ip (strip (target_answer i)))) = None"
  proof -
    from menu_scan [OF h] obtain w3 where
      w3: "runs w3 = runs w"
      and m: "menu i w =
        (case run_scan (outside i) (command p)
                (choose_target last_ip (strip (target_answer i))) of
           Inl (e, r) \<Rightarrow> Inl e
         | Inr r \<Rightarrow> Inr (say (printed (final r)) (w3\<lparr>runs := runs w3 @ [r]\<rparr>), Returned))"
      by blast
    from ok obtain r where r: "run_scan (outside i) (command p)
              (choose_target last_ip (strip (target_answer i))) = Inr r"
      by (auto simp add: raised_None_iff)
    have early: "\<exists>proc. reaches_loop (outside i) (command p)
        (choose_target last_ip (strip (target_answer i))) proc"
      using run_scan_early(3) [of "outside i" "command p"
          "choose_target last_ip (strip (target_answer i))"] ok
      by blast
    have a: "argv r = Some (command p @ [''--stats-every'', ''3s''] @
             [choose_target last_ip (strip (target_answer i))]) \<and>
      popen (outside i) (command p @ [''--stats-every'', ''3s''] @
             [choose_target last_ip (strip (target_answer i))]) \<noteq> None"
      using started [of "outside i" "command p"
          "choose_target last_ip (strip (target_answer i))"] early r
      by (auto simp add: reaches_loop_def full_command_def)
    show ?thesis
      using a by (simp add: m r say_def w3)
  qed
  show ?thesis
    using full started [of env cmd target] none some same through_menu by blast
qed

theorem child_argument_list_witness:
  "\<exists>w'. menu \<lparr>choice_answer = ''4'', target_answer = ''r'', nmap_found = True,
               outside = \<lparr>markup_fails = (\<lambda>e. False), open_fails = (\<lambda>n. False),
                 popen = (\<lambda>a. if a = [''nmap'', ''-sV'', ''-sC'', ''--stats-every'', ''3s'',
                                        ''10.0.0.0/24'']
                              then Some \<lparr>stdout_lines = [''Nmap done\<newline>''], returncode = 0\<rparr>
                              else None),
                 stamp = ''1700000000''\<rparr>\<rparr>
             \<lparr>console = [], last_target_file = Present True True ''10.0.0.0/24\<newline>'',
              runs = []\<rparr> = Inr (w', Returned) \<and>
        map argv (runs w') =
          [Some [''nmap'', ''-sV'', ''-sC'', ''--stats-every'', ''3s'', ''10.0.0.0/24'']]"
  using child_argument_list
    [of "[''nmap'', ''-sV'', ''-sC'']" "''10.0.0.0/24''"
        "\<lparr>markup_fails = (\<lambda>e. False), open_fails = (\<lambda>n. False),
          popen = (\<lambda>a. if a = [''nmap'', ''-sV'', ''-sC'', ''--stats-every'', ''3s'',
                                 ''10.0.0.0/24'']
                       then Some \<lparr>stdout_lines = [''Nmap done\<newline>''], returncode = 0\<rparr>
                       else None),
          stamp = ''1700000000''\<rparr>"
        "\<lparr>stdout_lines = [''Nmap done\<newline>''], returncode = 0\<rparr>"
        "\<lambda>a. None"
        "\<lparr>choice_answer = ''4'', target_answer = ''r'', nmap_found = True,
          outside = \<lparr>markup_fails = (\<lambda>e. False), open_fails = (\<lambda>n. False),
            popen = (\<lambda>a. if a = [''nmap'', ''-sV'', ''-sC'', ''--stats-every'', ''3s'',
                                   ''10.0.0.0/24'']
                         then Some \<lparr>stdout_lines = [''Nmap done\<newline>''], returncode = 0\<rparr>
                         else None),
            stamp = ''1700000000''\<rparr>\<rparr>"
        "\<lparr>name = ''Service & Version Detection'', command = [''nmap'', ''-sV'', ''-sC''],
          description = ''Detects service versions and runs default scripts.''\<rparr>"
        "\<lparr>console = [], last_target_file = Present True True ''10.0.0.0/24\<newline>'',
          runs = []\<rparr>"
        "Some ''10.0.0.0/24''" "Present True True ''10.0.0.0/24''"]
  by (simp add: menu_eval ip_eval run_eval run_scan_def full_command_def finish_def)


section \<open>The last-target store\<close>

lemma universal_newlines_id: "CHR 0x0D \<notin> set t \<Longrightarrow> universal_newlines t = t"
  by (induction t rule: universal_newlines.induct) auto

text \<open>
  Claim C6, amended. \<open>save_last_ip(t)\<close> writes exactly \<open>t\<close>, to a new file or over
  the old text. \<open>load_last_ip()\<close> after it returns \<open>t\<close> with its line endings read in
  text mode and its surrounding whitespace removed; this is \<open>t\<close> itself whenever \<open>t\<close>
  has no surrounding whitespace and no carriage return.
\<close>

theorem save_then_load:
  "save_last_ip t Missing = Inr (Present True True t) \<and>
   save_last_ip t (Present True True old) = Inr (Present True True t) \<and>
   load_last_ip (Present True True t) = Inr (Some (strip (universal_newlines t))) \<and>
   (strip t = t \<and> CHR 0x0D \<notin> set t \<longrightarrow> load_last_ip (Present True True t) = Inr (Some t))"
  by (simp add: save_last_ip_def load_last_ip_def universal_newlines_id)

theorem save_then_load_witness:
  "save_last_ip ''2001:db8::/32'' (Present True True ''10.0.0.1'') =
     Inr (Present True True ''2001:db8::/32'') \<and>
   load_last_ip (Present True True ''2001:db8::/32'') = Inr (Some ''2001:db8::/32'')"
  using save_then_load [of "''2001:db8::/32''" "''10.0.0.1''"]
  by (simp add: strip_def isspace_def)

text \<open>The claim as stated fails on a target with a leading blank: the blank is written
  and is gone when the file is read back.\<close>

theorem save_then_load_trims:
  "save_last_ip '' 10.0.0.1'' Missing = Inr (Present True True '' 10.0.0.1'') \<and>
   load_last_ip (Present True True '' 10.0.0.1'') = Inr (Some ''10.0.0.1'') \<and>
   ''10.0.0.1'' \<noteq> '' 10.0.0.1''"
  by (simp add: save_last_ip_def load_last_ip_def strip_def isspace_def)

text \<open>
  Claim C9, amended. \<open>load_last_ip\<close> returns the absent value when the file does not
  exist, and the trimmed text when the file exists and can be read. When the file exists
  and cannot be read, the error is not turned into the absent value: it is raised, and
  it leaves \<open>menu\<close> and the main loop with it.
\<close>

theorem load_last_ip_outcomes:
  "load_last_ip Missing = Inr None \<and>
   load_last_ip (Present True wr text) = Inr (Some (strip (universal_newlines text))) \<and>
   load_last_ip (Present False wr text) = Inl OSError \<and>
   (map_of SCANS (lower (strip (choice_answer i))) = Some p \<and>
    last_target_file w = Present False wr text \<longrightarrow>
      menu i w = Inl OSError \<and> main_loop w (i # rest) = Inl OSError)"
proof -
  have escapes: "menu i w = Inl OSError \<and> main_loop w (i # rest) = Inl OSError"
    if key: "map_of SCANS (lower (strip (choice_answer i))) = Some p"
      and unreadable: "last_target_file w = Present False wr text"
  proof -
    have "lower (strip (choice_answer i)) \<noteq> ''x''" "lower (strip (choice_answer i)) \<noteq> ''e''"
      using scans_keys [OF key] by auto
    then have "menu i w = Inl OSError"
      using key unreadable
      by (simp add: menu_def Let_def say_def print_banner_def load_last_ip_def)
    then show ?thesis by simp
  qed
  show ?thesis
    using escapes by (simp add: load_last_ip_def)
qed

theorem load_last_ip_outcomes_witness:
  "menu \<lparr>choice_answer = ''2'', target_answer = ''10.0.0.1'', nmap_found = True,
         outside = \<lparr>markup_fails = (\<lambda>e. False), open_fails = (\<lambda>n. False),
           popen = (\<lambda>a. Some \<lparr>stdout_lines = [], returncode = 0\<rparr>),
           stamp = ''1700000000''\<rparr>\<rparr>
      \<lparr>console = [], last_target_file = Present False True ''10.0.0.1'', runs = []\<rparr> =
     Inl OSError \<and>
   main_loop \<lparr>console = [], last_target_file = Present False True ''10.0.0.1'', runs = []\<rparr>
     [\<lparr>choice_answer = ''2'', target_answer = ''10.0.0.1'', nmap_found = True,
       outside = \<lparr>markup_fails = (\<lambda>e. False), open_fails = (\<lambda>n. False),
         popen = (\<lambda>a. Some \<lparr>stdout_lines = [], returncode = 0\<rparr>),
         stamp = ''1700000000''\<rparr>\<rparr>] = Inl OSError"
  using load_last_ip_outcomes
    [of True "''10.0.0.1''"
        "\<lparr>choice_answer = ''2'', target_answer = ''10.0.0.1'', nmap_found = True,
          outside = \<lparr>markup_fails = (\<lambda>e. False), open_fails = (\<lambda>n. False),
            popen = (\<lambda>a. Some \<lparr>stdout_lines = [], returncode = 0\<rparr>),
            stamp = ''1700000000''\<rparr>\<rparr>"
        "\<lparr>name = ''Quick Port Scan'', command = [''nmap''],
          description = ''Scans the most common 1000 TCP ports.''\<rparr>"
        "\<lparr>console = [], last_target_file = Present False True ''10.0.0.1'', runs = []\<rparr>"
        "[]"]
  by (simp add: menu_eval)

text \<open>The claim as stated fails on a file that exists and cannot be read.\<close>

theorem load_unreadable_raises:
  "load_last_ip (Present False True ''10.0.0.1'') = Inl OSError \<and>
   load_last_ip (Present False True ''10.0.0.1'') \<noteq> Inr None"
  by (simp add: load_last_ip_def)


section \<open>Target validation\<close>


end
